theory Spec2Isabelle
  imports Complex_Main "HOL-Library.Multiset"
begin

section \<open>Mass properties of a closed triangle mesh\<close>

text \<open>
  A shallow embedding of \<^verbatim>\<open>MeshMassProperties.cpp\<close>. The scalar type \<^verbatim>\<open>btScalar\<close> is a
  floating-point type: every arithmetic operation of the code rounds its result, may
  overflow to an infinity, and may produce a NaN. The model makes the rounding a
  parameter of every function, so that one definition of the code serves two readings:
  with \<open>round32\<close> it is the code as it runs in IEEE binary32 (the \<^verbatim>\<open>float\<close> of the
  literals \<^verbatim>\<open>0.1f\<close>, \<^verbatim>\<open>0.25f\<close>), round to nearest, ties to even; with \<open>exact\<close> no
  operation rounds and a literal is its decimal value. In binary32 each operation of the
  source rounds once, to the format itself: no excess precision and no fused
  multiply-add.
\<close>

subsection \<open>Scalars\<close>

text \<open>
  A value of \<^verbatim>\<open>btScalar\<close>: a finite number, an infinity or a NaN. Zero carries no sign:
  the sign of a zero is visible only through a division by it, and the one division by
  a variable, by \<^verbatim>\<open>m_volume\<close>, has a divisor that is a sum started from \<^verbatim>\<open>0.0f\<close> and so
  is never the negative zero.
\<close>

datatype btScalar = Fin real | PInf | NInf | NaN

text \<open>A rounding takes the exact result of an operation to the value that is stored.\<close>

type_synonym rounding = "real \<Rightarrow> btScalar"

definition exact :: rounding where
  "exact x = Fin x"

text \<open>
  Rounding to binary32. \<open>exponent32 a\<close> is the exponent of the binade of a, not below
  that of the subnormal numbers, found by bisection; the spacing of the representable
  numbers there is 2 to the power \<open>exponent32 a - 23\<close>; the magnitude is rounded to the
  nearest multiple of the spacing, a tie to the even multiple, and a result of 2^128 or
  more is an infinity.
\<close>

definition tieEven :: "int \<Rightarrow> real \<Rightarrow> int" where
  "tieEven n f = (if f < 1 / 2 then n else if 1 / 2 < f then n + 1
                  else if even n then n else n + 1)"

definition rneFloor :: "real \<Rightarrow> int \<Rightarrow> int" where
  "rneFloor q n = tieEven n (q - of_int n)"

definition rne :: "real \<Rightarrow> int" where
  "rne q = rneFloor q \<lfloor>q\<rfloor>"

definition expStep :: "real \<Rightarrow> int \<Rightarrow> int \<Rightarrow> int" where
  "expStep a k e = (if 2 powi (e + k) \<le> a then e + k else e)"

definition exponent32 :: "real \<Rightarrow> int" where
  "exponent32 a =
     expStep a 1 (expStep a 2 (expStep a 4 (expStep a 8 (expStep a 16 (expStep a 32
       (expStep a 64 (expStep a 128 (- 126))))))))"

definition pack32 :: "bool \<Rightarrow> real \<Rightarrow> btScalar" where
  "pack32 pos m = (if 2 powi 128 \<le> m then (if pos then PInf else NInf)
                   else Fin (if pos then m else - m))"

definition roundUlp :: "bool \<Rightarrow> real \<Rightarrow> real \<Rightarrow> btScalar" where
  "roundUlp pos a u = pack32 pos (of_int (rne (a / u)) * u)"

definition roundMag :: "bool \<Rightarrow> real \<Rightarrow> btScalar" where
  "roundMag pos a = roundUlp pos a (2 powi (exponent32 a - 23))"

definition round32 :: rounding where
  "round32 x = (if x = 0 then Fin 0 else roundMag (0 < x) \<bar>x\<bar>)"

text \<open>The operations of IEEE arithmetic, for a given rounding of the finite results.\<close>

fun fneg :: "btScalar \<Rightarrow> btScalar" where
  "fneg (Fin x) = Fin (- x)"
| "fneg PInf = NInf"
| "fneg NInf = PInf"
| "fneg NaN = NaN"

fun fadd :: "rounding \<Rightarrow> btScalar \<Rightarrow> btScalar \<Rightarrow> btScalar" where
  "fadd r (Fin x) (Fin y) = r (x + y)"
| "fadd r NaN b = NaN"
| "fadd r a NaN = NaN"
| "fadd r PInf NInf = NaN"
| "fadd r NInf PInf = NaN"
| "fadd r PInf b = PInf"
| "fadd r NInf b = NInf"
| "fadd r (Fin x) b = b"

definition fsub :: "rounding \<Rightarrow> btScalar \<Rightarrow> btScalar \<Rightarrow> btScalar" where
  "fsub r a b = fadd r a (fneg b)"

text \<open>An infinity times a finite number: NaN for zero, else the infinity of the product's sign.\<close>

fun infTimes :: "bool \<Rightarrow> real \<Rightarrow> btScalar" where
  "infTimes pos x =
     (if x = 0 then NaN else if (0 < x) = pos then PInf else NInf)"

fun fmul :: "rounding \<Rightarrow> btScalar \<Rightarrow> btScalar \<Rightarrow> btScalar" where
  "fmul r (Fin x) (Fin y) = r (x * y)"
| "fmul r NaN b = NaN"
| "fmul r a NaN = NaN"
| "fmul r (Fin x) PInf = infTimes True x"
| "fmul r (Fin x) NInf = infTimes False x"
| "fmul r PInf (Fin y) = infTimes True y"
| "fmul r NInf (Fin y) = infTimes False y"
| "fmul r PInf PInf = PInf"
| "fmul r NInf NInf = PInf"
| "fmul r PInf NInf = NInf"
| "fmul r NInf PInf = NInf"

fun fdiv :: "rounding \<Rightarrow> btScalar \<Rightarrow> btScalar \<Rightarrow> btScalar" where
  "fdiv r (Fin x) (Fin y) = (if y = 0 then infTimes True x else r (x / y))"
| "fdiv r NaN b = NaN"
| "fdiv r a NaN = NaN"
| "fdiv r (Fin x) b = Fin 0"
| "fdiv r PInf (Fin y) = (if 0 \<le> y then PInf else NInf)"
| "fdiv r NInf (Fin y) = (if 0 \<le> y then NInf else PInf)"
| "fdiv r a b = NaN"

text \<open>The comparison \<^verbatim>\<open>a > b\<close>: false whenever a NaN is compared.\<close>

fun fgt :: "btScalar \<Rightarrow> btScalar \<Rightarrow> bool" where
  "fgt (Fin x) (Fin y) = (y < x)"
| "fgt NaN b = False"
| "fgt a NaN = False"
| "fgt PInf PInf = False"
| "fgt PInf b = True"
| "fgt a PInf = False"
| "fgt NInf b = False"
| "fgt (Fin x) NInf = True"

subsection \<open>Vectors and matrices\<close>

text \<open>\<^verbatim>\<open>btVector3\<close>: three coordinates, read with \<^verbatim>\<open>v[i]\<close> for i = 0, 1, 2.\<close>

datatype btVector3 = Vec3 btScalar btScalar btScalar

text \<open>\<^verbatim>\<open>btMatrix3x3\<close>: three rows; \<^verbatim>\<open>m[i]\<close> is row i and \<^verbatim>\<open>m[i][j]\<close> its entry j.\<close>

datatype btMatrix3x3 = Mat3 btVector3 btVector3 btVector3

fun vget :: "btVector3 \<Rightarrow> nat \<Rightarrow> btScalar" where
  "vget (Vec3 x y z) i = (if i = 0 then x else if i = 1 then y else z)"

fun vput :: "btVector3 \<Rightarrow> nat \<Rightarrow> btScalar \<Rightarrow> btVector3" where
  "vput (Vec3 x y z) i a =
     (if i = 0 then Vec3 a y z else if i = 1 then Vec3 x a z else Vec3 x y a)"

fun mrow :: "btMatrix3x3 \<Rightarrow> nat \<Rightarrow> btVector3" where
  "mrow (Mat3 r0 r1 r2) i = (if i = 0 then r0 else if i = 1 then r1 else r2)"

fun mget :: "btMatrix3x3 \<Rightarrow> nat \<Rightarrow> nat \<Rightarrow> btScalar" where
  "mget m i j = vget (mrow m i) j"

fun mput :: "btMatrix3x3 \<Rightarrow> nat \<Rightarrow> nat \<Rightarrow> btScalar \<Rightarrow> btMatrix3x3" where
  "mput (Mat3 r0 r1 r2) i j a =
     (if i = 0 then Mat3 (vput r0 j a) r1 r2
      else if i = 1 then Mat3 r0 (vput r1 j a) r2
      else Mat3 r0 r1 (vput r2 j a))"

definition vzero :: btVector3 where
  "vzero = Vec3 (Fin 0) (Fin 0) (Fin 0)"

definition mzero :: btMatrix3x3 where
  "mzero = Mat3 vzero vzero vzero"

text \<open>
  The operations of Bullet's \<^verbatim>\<open>btVector3\<close> and \<^verbatim>\<open>btMatrix3x3\<close> that the code uses, each
  coordinate by coordinate: sum, difference, product with a scalar, dot product (summed
  from the left), cross product, squared length, and the sum of two matrices.
\<close>

fun vadd :: "rounding \<Rightarrow> btVector3 \<Rightarrow> btVector3 \<Rightarrow> btVector3" where
  "vadd r (Vec3 a b c) (Vec3 x y z) = Vec3 (fadd r a x) (fadd r b y) (fadd r c z)"

fun vsub :: "rounding \<Rightarrow> btVector3 \<Rightarrow> btVector3 \<Rightarrow> btVector3" where
  "vsub r (Vec3 a b c) (Vec3 x y z) = Vec3 (fsub r a x) (fsub r b y) (fsub r c z)"

fun vscale :: "rounding \<Rightarrow> btScalar \<Rightarrow> btVector3 \<Rightarrow> btVector3" where
  "vscale r s (Vec3 x y z) = Vec3 (fmul r x s) (fmul r y s) (fmul r z s)"

fun vdot :: "rounding \<Rightarrow> btVector3 \<Rightarrow> btVector3 \<Rightarrow> btScalar" where
  "vdot r (Vec3 a b c) (Vec3 x y z) = fadd r (fadd r (fmul r a x) (fmul r b y)) (fmul r c z)"

fun vcross :: "rounding \<Rightarrow> btVector3 \<Rightarrow> btVector3 \<Rightarrow> btVector3" where
  "vcross r (Vec3 a b c) (Vec3 x y z) =
     Vec3 (fsub r (fmul r b z) (fmul r c y))
          (fsub r (fmul r c x) (fmul r a z))
          (fsub r (fmul r a y) (fmul r b x))"

definition length2 :: "rounding \<Rightarrow> btVector3 \<Rightarrow> btScalar" where
  "length2 r v = vdot r v v"

fun madd :: "rounding \<Rightarrow> btMatrix3x3 \<Rightarrow> btMatrix3x3 \<Rightarrow> btMatrix3x3" where
  "madd r (Mat3 a b c) (Mat3 x y z) = Mat3 (vadd r a x) (vadd r b y) (vadd r c z)"

subsection \<open>Tetrahedron inertia\<close>

text \<open>
  One pass of the loop of \<^verbatim>\<open>computeTetrahedronInertia\<close> for the index i, with
  j = (i + 1) % 3 and k = (j + 1) % 3. The operations are those of the source expression,
  in its order of evaluation: sums and products associate to the left, \<^verbatim>\<open>mass * 0.1f\<close> and
  \<^verbatim>\<open>- mass * 0.05f\<close> are formed first. A literal is the rounding of its decimal value. The
  chained assignment \<^verbatim>\<open>inertia[j][k] = inertia[k][j] = ...\<close> stores into [k][j] first.
\<close>

definition tetraInertiaStep ::
  "rounding \<Rightarrow> btScalar \<Rightarrow> btVector3 \<Rightarrow> btVector3 \<Rightarrow> btVector3 \<Rightarrow> btVector3 \<Rightarrow> nat
     \<Rightarrow> btMatrix3x3 \<Rightarrow> btMatrix3x3"
where
  "tetraInertiaStep r mass p0 p1 p2 p3 i inertia =
     (let j = (i + 1) mod 3;
          k = (j + 1) mod 3;
          diagonal = fmul r (fmul r mass (r (1 / 10)))
            (fadd r (fadd r (fadd r (fadd r (fadd r (fadd r (fadd r
               (fmul r (vget p0 j)
                  (fadd r (fadd r (fadd r (vget p0 j) (vget p1 j)) (vget p2 j)) (vget p3 j)))
               (fmul r (vget p1 j) (fadd r (fadd r (vget p1 j) (vget p2 j)) (vget p3 j))))
               (fmul r (vget p2 j) (fadd r (vget p2 j) (vget p3 j))))
               (fmul r (vget p3 j) (vget p3 j)))
               (fmul r (vget p0 k)
                  (fadd r (fadd r (fadd r (vget p0 k) (vget p1 k)) (vget p2 k)) (vget p3 k))))
               (fmul r (vget p1 k) (fadd r (fadd r (vget p1 k) (vget p2 k)) (vget p3 k))))
               (fmul r (vget p2 k) (fadd r (vget p2 k) (vget p3 k))))
               (fmul r (vget p3 k) (vget p3 k)));
          offDiagonal = fmul r (fmul r (fneg mass) (r (1 / 20)))
            (fadd r (fadd r (fadd r (fadd r
               (fmul r (r 2)
                  (fadd r (fadd r (fadd r (fmul r (vget p0 j) (vget p0 k))
                                          (fmul r (vget p1 j) (vget p1 k)))
                                  (fmul r (vget p2 j) (vget p2 k)))
                          (fmul r (vget p3 j) (vget p3 k))))
               (fmul r (vget p0 j) (fadd r (fadd r (vget p1 k) (vget p2 k)) (vget p3 k))))
               (fmul r (vget p1 j) (fadd r (fadd r (vget p0 k) (vget p2 k)) (vget p3 k))))
               (fmul r (vget p2 j) (fadd r (fadd r (vget p0 k) (vget p1 k)) (vget p3 k))))
               (fmul r (vget p3 j) (fadd r (fadd r (vget p0 k) (vget p1 k)) (vget p2 k))))
      in mput (mput (mput inertia i i diagonal) k j offDiagonal) j k offDiagonal)"

text \<open>
  \<^verbatim>\<open>computeTetrahedronInertia(mass, points, inertia)\<close>: the array \<^verbatim>\<open>points[0..3]\<close> is
  passed as four arguments; the matrix is updated in place, so the model takes
  the matrix before the call and returns the matrix after it.
\<close>

definition computeTetrahedronInertia ::
  "rounding \<Rightarrow> btScalar \<Rightarrow> btVector3 \<Rightarrow> btVector3 \<Rightarrow> btVector3 \<Rightarrow> btVector3
     \<Rightarrow> btMatrix3x3 \<Rightarrow> btMatrix3x3"
where
  "computeTetrahedronInertia r mass p0 p1 p2 p3 inertia =
     fold (tetraInertiaStep r mass p0 p1 p2 p3) [0, 1, 2] inertia"

subsection \<open>Tetrahedron volume\<close>

definition computeTetrahedronVolume ::
  "rounding \<Rightarrow> btVector3 \<Rightarrow> btVector3 \<Rightarrow> btVector3 \<Rightarrow> btVector3 \<Rightarrow> btScalar"
where
  "computeTetrahedronVolume r p0 p1 p2 p3 =
     fdiv r (vdot r (vcross r (vsub r p2 p1) (vsub r p3 p2)) (vsub r p3 p0)) (r 6)"

subsection \<open>Parallel axis theorem\<close>

text \<open>The body of the outer loop of \<^verbatim>\<open>applyParallelAxisTheorem\<close> for the index i.\<close>

definition parallelAxisStep ::
  "rounding \<Rightarrow> btVector3 \<Rightarrow> btScalar \<Rightarrow> btScalar \<Rightarrow> nat \<Rightarrow> btMatrix3x3 \<Rightarrow> btMatrix3x3"
where
  "parallelAxisStep r shift mass distanceSquared i inertia =
     (let shifti = vget shift i;
          inertia1 = mput inertia i i
            (fadd r (mget inertia i i)
               (fmul r mass (fsub r distanceSquared (fmul r shifti shifti))))
      in fold (\<lambda>j m.
            let offDiagonal = fmul r (fmul r mass shifti) (vget shift j);
                m1 = mput m i j (fsub r (mget m i j) offDiagonal)
            in mput m1 j i (fsub r (mget m1 j i) offDiagonal))
          [i + 1 ..< 3] inertia1)"

definition applyParallelAxisTheorem ::
  "rounding \<Rightarrow> btMatrix3x3 \<Rightarrow> btVector3 \<Rightarrow> btScalar \<Rightarrow> btMatrix3x3"
where
  "applyParallelAxisTheorem r inertia shift mass =
     (let distanceSquared = length2 r shift
      in if fgt distanceSquared (r 0)
         then fold (parallelAxisStep r shift mass distanceSquared) [0 ..< 3] inertia
         else inertia)"

definition inverseParallelAxisStep ::
  "rounding \<Rightarrow> btVector3 \<Rightarrow> btScalar \<Rightarrow> btScalar \<Rightarrow> nat \<Rightarrow> btMatrix3x3 \<Rightarrow> btMatrix3x3"
where
  "inverseParallelAxisStep r shift mass distanceSquared i inertia =
     (let shifti = vget shift i;
          inertia1 = mput inertia i i
            (fsub r (mget inertia i i)
               (fmul r mass (fsub r distanceSquared (fmul r shifti shifti))))
      in fold (\<lambda>j m.
            let offDiagonal = fmul r (fmul r mass shifti) (vget shift j);
                m1 = mput m i j (fadd r (mget m i j) offDiagonal)
            in mput m1 j i (fadd r (mget m1 j i) offDiagonal))
          [i + 1 ..< 3] inertia1)"

definition applyInverseParallelAxisTheorem ::
  "rounding \<Rightarrow> btMatrix3x3 \<Rightarrow> btVector3 \<Rightarrow> btScalar \<Rightarrow> btMatrix3x3"
where
  "applyInverseParallelAxisTheorem r inertia shift mass =
     (let distanceSquared = length2 r shift
      in if fgt distanceSquared (r 0)
         then fold (inverseParallelAxisStep r shift mass distanceSquared) [0 ..< 3] inertia
         else inertia)"

subsection \<open>The mesh loop\<close>

text \<open>
  The only check of the code is \<^verbatim>\<open>assert(triangleIndices[..] < numPoints)\<close>; a failed
  assertion aborts the computation. (Compiled without assertions, the code would read
  \<^verbatim>\<open>points\<close> out of bounds instead, which has no defined behaviour; the model is that of
  the build with assertions.)
\<close>

datatype error = AssertionFailed

text \<open>
  What the loop of \<^verbatim>\<open>computeMassProperties\<close> carries from one pass to the next:
  the members \<^verbatim>\<open>m_volume\<close> and \<^verbatim>\<open>m_inertia\<close>, the local \<^verbatim>\<open>weightedCenter\<close>, and the
  local \<^verbatim>\<open>tetraInertia\<close>, which is declared before the loop and handed to
  \<^verbatim>\<open>computeTetrahedronInertia\<close> by reference in every pass.
\<close>

record loop_state =
  m_volume :: btScalar
  weightedCenter :: btVector3
  m_inertia :: btMatrix3x3
  tetraInertia :: btMatrix3x3

text \<open>
  The \<^verbatim>\<open>uint32_t\<close> variables: \<^verbatim>\<open>numPoints = points.size()\<close>,
  \<^verbatim>\<open>numTriangles = triangleIndices.size() / 3\<close> (the quotient of the sizes, then
  the conversion to 32 bits) and \<^verbatim>\<open>t = 3 * i\<close>, \<^verbatim>\<open>t + 1\<close>, \<^verbatim>\<open>t + 2\<close>, all modulo 2^32.
  The elements of \<^verbatim>\<open>VectorOfIndices\<close> are unsigned integers, read as naturals.
\<close>

definition uint32 :: "nat \<Rightarrow> nat" where
  "uint32 n = n mod 2 ^ 32"

definition numPoints :: "'a list \<Rightarrow> nat" where
  "numPoints points = uint32 (length points)"

definition numTriangles :: "nat list \<Rightarrow> nat" where
  "numTriangles triangleIndices = uint32 (length triangleIndices div 3)"

text \<open>
  The centre of one tetrahedron, \<^verbatim>\<open>0.25f * (tetraPoints[1] + tetraPoints[2] + tetraPoints[3])\<close>.
\<close>

definition tetraCenter :: "rounding \<Rightarrow> btVector3 \<Rightarrow> btVector3 \<Rightarrow> btVector3 \<Rightarrow> btVector3" where
  "tetraCenter r q1 q2 q3 = vscale r (r (1 / 4)) (vadd r (vadd r q1 q2) q3)"

text \<open>
  One pass of the loop over the triangles, for the counter i. For i below
  \<^verbatim>\<open>numTriangles\<close> the three reads of \<^verbatim>\<open>triangleIndices\<close> are within the list (lemma
  \<open>read_in_range\<close> below), and the reads of \<^verbatim>\<open>points\<close> come after the assertions, which
  put each index below \<^verbatim>\<open>numPoints\<close>, itself at most the length of \<^verbatim>\<open>points\<close>.
\<close>

definition loopBody ::
  "rounding \<Rightarrow> btVector3 list \<Rightarrow> nat list \<Rightarrow> nat \<Rightarrow> loop_state \<Rightarrow> error + loop_state"
where
  "loopBody r points triangleIndices i st =
     (let t = uint32 (3 * i);
          i0 = triangleIndices ! t;
          i1 = triangleIndices ! uint32 (t + 1);
          i2 = triangleIndices ! uint32 (t + 2)
      in if \<not> i0 < numPoints points then Inl AssertionFailed
         else if \<not> i1 < numPoints points then Inl AssertionFailed
         else if \<not> i2 < numPoints points then Inl AssertionFailed
         else
           let q0 = Vec3 (r 0) (r 0) (r 0);
               q1 = points ! i0;
               q2 = points ! i1;
               q3 = points ! i2;
               volume = computeTetrahedronVolume r q0 q1 q2 q3;
               center = tetraCenter r q1 q2 q3;
               r0 = vsub r q0 center;
               r1 = vsub r q1 center;
               r2 = vsub r q2 center;
               r3 = vsub r q3 center;
               tetraInertia1 = computeTetrahedronInertia r volume r0 r1 r2 r3 (tetraInertia st);
               tetraInertia2 = applyParallelAxisTheorem r tetraInertia1 center volume
           in Inr \<lparr> m_volume = fadd r (m_volume st) volume,
                    weightedCenter = vadd r (weightedCenter st) (vscale r volume center),
                    m_inertia = madd r (m_inertia st) tetraInertia2,
                    tetraInertia = tetraInertia2 \<rparr>)"

text \<open>The loop \<^verbatim>\<open>for (i = 0; i < numTriangles; ++i)\<close>, run over the counters in order.\<close>

fun runLoop ::
  "rounding \<Rightarrow> btVector3 list \<Rightarrow> nat list \<Rightarrow> nat list \<Rightarrow> loop_state \<Rightarrow> error + loop_state"
where
  "runLoop r points triangleIndices [] st = Inr st"
| "runLoop r points triangleIndices (i # is) st =
     (case loopBody r points triangleIndices i st of
        Inl e \<Rightarrow> Inl e
      | Inr st' \<Rightarrow> runLoop r points triangleIndices is st')"

text \<open>
  The totals before the loop. \<^verbatim>\<open>tetraInertia\<close> is not initialised by the code; every
  one of its nine entries is written by \<^verbatim>\<open>computeTetrahedronInertia\<close> before it is read
  (lemma \<open>computeTetrahedronInertia_overwrites\<close> below), so its first value is
  immaterial and taken to be zero.
\<close>

definition initialState :: "rounding \<Rightarrow> loop_state" where
  "initialState r = \<lparr> m_volume = r 0, weightedCenter = vzero, m_inertia = mzero,
                      tetraInertia = mzero \<rparr>"

subsection \<open>The result\<close>

text \<open>
  The members \<^verbatim>\<open>m_volume\<close>, \<^verbatim>\<open>m_centerOfMass\<close> and \<^verbatim>\<open>m_inertia\<close> of the object when
  \<^verbatim>\<open>computeMassProperties\<close> has returned.
\<close>

record MassProperties =
  volume :: btScalar
  centerOfMass :: btVector3
  inertia :: "btMatrix3x3"

text \<open>
  The two statements after the loop,
  \<^verbatim>\<open>m_centerOfMass = weightedCenter / m_volume\<close> and
  \<^verbatim>\<open>applyInverseParallelAxisTheorem(m_inertia, m_centerOfMass, m_volume)\<close>.
  Bullet's quotient of a vector by a scalar s is the product of the vector with
  \<^verbatim>\<open>btScalar(1.0) / s\<close>. Nothing guards the division: for a zero \<^verbatim>\<open>m_volume\<close> the
  reciprocal is an infinity and the coordinates of the centre are infinities or NaN.
\<close>

definition finish :: "rounding \<Rightarrow> loop_state \<Rightarrow> MassProperties" where
  "finish r st =
     (let m_centerOfMass = vscale r (fdiv r (r 1) (m_volume st)) (weightedCenter st)
      in \<lparr> volume = m_volume st,
           centerOfMass = m_centerOfMass,
           inertia = applyInverseParallelAxisTheorem r (m_inertia st) m_centerOfMass
                       (m_volume st) \<rparr>)"

definition computeMassProperties ::
  "rounding \<Rightarrow> btVector3 list \<Rightarrow> nat list \<Rightarrow> error + MassProperties"
where
  "computeMassProperties r points triangleIndices =
     (case runLoop r points triangleIndices [0 ..< numTriangles triangleIndices]
             (initialState r) of
        Inl e \<Rightarrow> Inl e
      | Inr st \<Rightarrow> Inr (finish r st))"

subsection \<open>Example meshes\<close>

text \<open>
  The unit cube centred at the origin: eight vertices, and two triangles for each of the
  six faces, wound counter-clockwise when seen from outside.
\<close>

definition cubePoints :: "btVector3 list" where
  "cubePoints =
     [ Vec3 (Fin (- (1 / 2))) (Fin (- (1 / 2))) (Fin (- (1 / 2))),
       Vec3 (Fin (1 / 2)) (Fin (- (1 / 2))) (Fin (- (1 / 2))),
       Vec3 (Fin (1 / 2)) (Fin (1 / 2)) (Fin (- (1 / 2))),
       Vec3 (Fin (- (1 / 2))) (Fin (1 / 2)) (Fin (- (1 / 2))),
       Vec3 (Fin (- (1 / 2))) (Fin (- (1 / 2))) (Fin (1 / 2)),
       Vec3 (Fin (1 / 2)) (Fin (- (1 / 2))) (Fin (1 / 2)),
       Vec3 (Fin (1 / 2)) (Fin (1 / 2)) (Fin (1 / 2)),
       Vec3 (Fin (- (1 / 2))) (Fin (1 / 2)) (Fin (1 / 2)) ]"

definition cubeTriangles :: "nat list" where
  "cubeTriangles =
     [ 0, 3, 2,  0, 2, 1,
       4, 5, 6,  4, 6, 7,
       0, 1, 5,  0, 5, 4,
       3, 7, 6,  3, 6, 2,
       0, 4, 7,  0, 7, 3,
       1, 2, 6,  1, 6, 5 ]"

text \<open>A second small mesh for examples: one triangle cutting the corner of the positive octant.\<close>

definition cornerPoints :: "btVector3 list" where
  "cornerPoints = [Vec3 (Fin 3) (Fin 0) (Fin 0), Vec3 (Fin 0) (Fin 3) (Fin 0),
                   Vec3 (Fin 0) (Fin 0) (Fin 3)]"

subsection \<open>Auxiliary notions used in the statements and proofs\<close>

text \<open>
  A matrix is symmetric when its mirrored entries hold the same value (two NaN entries,
  which C++ would not compare equal, count as the same value).
\<close>

definition symmetric :: "btMatrix3x3 \<Rightarrow> bool" where
  "symmetric m = (mget m 0 1 = mget m 1 0 \<and> mget m 0 2 = mget m 2 0 \<and> mget m 1 2 = mget m 2 1)"

text \<open>The two expressions of \<^verbatim>\<open>computeTetrahedronInertia\<close>, for given j and k.\<close>

definition tetraDiag ::
  "rounding \<Rightarrow> btScalar \<Rightarrow> btVector3 \<Rightarrow> btVector3 \<Rightarrow> btVector3 \<Rightarrow> btVector3 \<Rightarrow> nat \<Rightarrow> nat
     \<Rightarrow> btScalar"
where
  "tetraDiag r mass p0 p1 p2 p3 j k = fmul r (fmul r mass (r (1 / 10)))
            (fadd r (fadd r (fadd r (fadd r (fadd r (fadd r (fadd r
               (fmul r (vget p0 j)
                  (fadd r (fadd r (fadd r (vget p0 j) (vget p1 j)) (vget p2 j)) (vget p3 j)))
               (fmul r (vget p1 j) (fadd r (fadd r (vget p1 j) (vget p2 j)) (vget p3 j))))
               (fmul r (vget p2 j) (fadd r (vget p2 j) (vget p3 j))))
               (fmul r (vget p3 j) (vget p3 j)))
               (fmul r (vget p0 k)
                  (fadd r (fadd r (fadd r (vget p0 k) (vget p1 k)) (vget p2 k)) (vget p3 k))))
               (fmul r (vget p1 k) (fadd r (fadd r (vget p1 k) (vget p2 k)) (vget p3 k))))
               (fmul r (vget p2 k) (fadd r (vget p2 k) (vget p3 k))))
               (fmul r (vget p3 k) (vget p3 k)))"

definition tetraOff ::
  "rounding \<Rightarrow> btScalar \<Rightarrow> btVector3 \<Rightarrow> btVector3 \<Rightarrow> btVector3 \<Rightarrow> btVector3 \<Rightarrow> nat \<Rightarrow> nat
     \<Rightarrow> btScalar"
where
  "tetraOff r mass p0 p1 p2 p3 j k = fmul r (fmul r (fneg mass) (r (1 / 20)))
            (fadd r (fadd r (fadd r (fadd r
               (fmul r (r 2)
                  (fadd r (fadd r (fadd r (fmul r (vget p0 j) (vget p0 k))
                                          (fmul r (vget p1 j) (vget p1 k)))
                                  (fmul r (vget p2 j) (vget p2 k)))
                          (fmul r (vget p3 j) (vget p3 k))))
               (fmul r (vget p0 j) (fadd r (fadd r (vget p1 k) (vget p2 k)) (vget p3 k))))
               (fmul r (vget p1 j) (fadd r (fadd r (vget p0 k) (vget p2 k)) (vget p3 k))))
               (fmul r (vget p2 j) (fadd r (fadd r (vget p0 k) (vget p1 k)) (vget p3 k))))
               (fmul r (vget p3 j) (fadd r (fadd r (vget p0 k) (vget p1 k)) (vget p2 k))))"

text \<open>The matrix with the diagonal a, b, c and the mirrored entries d, e, f.\<close>

definition symMat3 ::
  "btScalar \<Rightarrow> btScalar \<Rightarrow> btScalar \<Rightarrow> btScalar \<Rightarrow> btScalar \<Rightarrow> btScalar \<Rightarrow> btMatrix3x3"
where
  "symMat3 a b c d e f = Mat3 (Vec3 a f e) (Vec3 f b d) (Vec3 e d c)"

text \<open>
  The matrix after the three passes of the loop of \<^verbatim>\<open>applyParallelAxisTheorem\<close>, and of
  its inverse, for the squared distance D: the three diagonal terms and the three
  values of \<^verbatim>\<open>offDiagonal\<close> first, then the nine updates.
\<close>

fun shiftWith ::
  "rounding \<Rightarrow> btMatrix3x3 \<Rightarrow> btScalar \<Rightarrow> btScalar \<Rightarrow> btScalar \<Rightarrow> btScalar \<Rightarrow> btScalar
     \<Rightarrow> btScalar \<Rightarrow> btMatrix3x3"
where
  "shiftWith r (Mat3 (Vec3 a b c) (Vec3 d e f) (Vec3 g h i)) dx dy dz oxy oxz oyz =
     Mat3 (Vec3 (fadd r a dx) (fsub r b oxy) (fsub r c oxz))
          (Vec3 (fsub r d oxy) (fadd r e dy) (fsub r f oyz))
          (Vec3 (fsub r g oxz) (fsub r h oyz) (fadd r i dz))"

fun shiftedBy ::
  "rounding \<Rightarrow> btMatrix3x3 \<Rightarrow> btVector3 \<Rightarrow> btScalar \<Rightarrow> btScalar \<Rightarrow> btMatrix3x3"
where
  "shiftedBy r M (Vec3 x y z) m D =
     shiftWith r M (fmul r m (fsub r D (fmul r x x))) (fmul r m (fsub r D (fmul r y y)))
       (fmul r m (fsub r D (fmul r z z)))
       (fmul r (fmul r m x) y) (fmul r (fmul r m x) z) (fmul r (fmul r m y) z)"

definition shiftedIf ::
  "rounding \<Rightarrow> btMatrix3x3 \<Rightarrow> btVector3 \<Rightarrow> btScalar \<Rightarrow> btScalar \<Rightarrow> btMatrix3x3"
where
  "shiftedIf r M shift m D = (if fgt D (r 0) then shiftedBy r M shift m D else M)"

fun unshiftWith ::
  "rounding \<Rightarrow> btMatrix3x3 \<Rightarrow> btScalar \<Rightarrow> btScalar \<Rightarrow> btScalar \<Rightarrow> btScalar \<Rightarrow> btScalar
     \<Rightarrow> btScalar \<Rightarrow> btMatrix3x3"
where
  "unshiftWith r (Mat3 (Vec3 a b c) (Vec3 d e f) (Vec3 g h i)) dx dy dz oxy oxz oyz =
     Mat3 (Vec3 (fsub r a dx) (fadd r b oxy) (fadd r c oxz))
          (Vec3 (fadd r d oxy) (fsub r e dy) (fadd r f oyz))
          (Vec3 (fadd r g oxz) (fadd r h oyz) (fsub r i dz))"

fun unshiftedBy ::
  "rounding \<Rightarrow> btMatrix3x3 \<Rightarrow> btVector3 \<Rightarrow> btScalar \<Rightarrow> btScalar \<Rightarrow> btMatrix3x3"
where
  "unshiftedBy r M (Vec3 x y z) m D =
     unshiftWith r M (fmul r m (fsub r D (fmul r x x))) (fmul r m (fsub r D (fmul r y y)))
       (fmul r m (fsub r D (fmul r z z)))
       (fmul r (fmul r m x) y) (fmul r (fmul r m x) z) (fmul r (fmul r m y) z)"

definition unshiftedIf ::
  "rounding \<Rightarrow> btMatrix3x3 \<Rightarrow> btVector3 \<Rightarrow> btScalar \<Rightarrow> btScalar \<Rightarrow> btMatrix3x3"
where
  "unshiftedIf r M shift m D = (if fgt D (r 0) then unshiftedBy r M shift m D else M)"

text \<open>The three assertions of one pass of the loop, for the counter i.\<close>

definition indicesOK :: "'a list \<Rightarrow> nat list \<Rightarrow> nat \<Rightarrow> bool" where
  "indicesOK points tris i =
     (tris ! uint32 (3 * i) < numPoints points
      \<and> tris ! uint32 (uint32 (3 * i) + 1) < numPoints points
      \<and> tris ! uint32 (uint32 (3 * i) + 2) < numPoints points)"

text \<open>
  The three indices the loop reads in pass i, \<^verbatim>\<open>triangleIndices[t]\<close>,
  \<^verbatim>\<open>triangleIndices[t + 1]\<close>, \<^verbatim>\<open>triangleIndices[t + 2]\<close> with t = 3 * i in 32 bits, and the
  three vertices \<^verbatim>\<open>points[...]\<close> at these indices.
\<close>

definition indexTriple :: "nat list \<Rightarrow> nat \<Rightarrow> nat \<times> nat \<times> nat" where
  "indexTriple tris i =
     (tris ! uint32 (3 * i), tris ! uint32 (uint32 (3 * i) + 1),
      tris ! uint32 (uint32 (3 * i) + 2))"

fun corners :: "'a list \<Rightarrow> nat \<times> nat \<times> nat \<Rightarrow> 'a \<times> 'a \<times> 'a" where
  "corners points (i0, i1, i2) = (points ! i0, points ! i1, points ! i2)"

definition triangleAt :: "'a list \<Rightarrow> nat list \<Rightarrow> nat \<Rightarrow> 'a \<times> 'a \<times> 'a" where
  "triangleAt points tris i = corners points (indexTriple tris i)"

text \<open>A triangle with a function applied to its three vertices.\<close>

fun mapTriangle :: "('a \<Rightarrow> 'b) \<Rightarrow> 'a \<times> 'a \<times> 'a \<Rightarrow> 'b \<times> 'b \<times> 'b" where
  "mapTriangle f (a, b, c) = (f a, f b, f c)"


definition meshTriangles :: "'a list \<Rightarrow> nat list \<Rightarrow> ('a \<times> 'a \<times> 'a) list" where
  "meshTriangles points tris = map (triangleAt points tris) [0 ..< numTriangles tris]"

text \<open>
  What one pass of the loop computes from its triangle: the volume of the tetrahedron,
  its centre, and its inertia about the origin; and the totals after the pass.
\<close>

type_synonym triangle = "btVector3 \<times> btVector3 \<times> btVector3"

definition inertiaAbout ::
  "rounding \<Rightarrow> btScalar \<Rightarrow> btVector3 \<Rightarrow> btVector3 \<Rightarrow> btVector3 \<Rightarrow> btVector3 \<Rightarrow> btVector3
     \<Rightarrow> btMatrix3x3"
where
  "inertiaAbout r V c q0 q1 q2 q3 =
     applyParallelAxisTheorem r
       (computeTetrahedronInertia r V (vsub r q0 c) (vsub r q1 c) (vsub r q2 c) (vsub r q3 c)
          mzero)
       c V"

definition contributionAt ::
  "rounding \<Rightarrow> btScalar \<Rightarrow> btVector3 \<Rightarrow> btVector3 \<Rightarrow> btVector3 \<Rightarrow> btVector3 \<Rightarrow> btVector3
     \<Rightarrow> btScalar \<times> btVector3 \<times> btMatrix3x3"
where
  "contributionAt r V c q0 q1 q2 q3 = (V, c, inertiaAbout r V c q0 q1 q2 q3)"

fun contribution :: "rounding \<Rightarrow> triangle \<Rightarrow> btScalar \<times> btVector3 \<times> btMatrix3x3" where
  "contribution r (q1, q2, q3) =
     contributionAt r (computeTetrahedronVolume r (Vec3 (r 0) (r 0) (r 0)) q1 q2 q3)
       (tetraCenter r q1 q2 q3) (Vec3 (r 0) (r 0) (r 0)) q1 q2 q3"

fun tally :: "rounding \<Rightarrow> loop_state \<Rightarrow> btScalar \<times> btVector3 \<times> btMatrix3x3 \<Rightarrow> loop_state" where
  "tally r st (V, c, J) =
     \<lparr> m_volume = fadd r (m_volume st) V,
       weightedCenter = vadd r (weightedCenter st) (vscale r V c),
       m_inertia = madd r (m_inertia st) J,
       tetraInertia = J \<rparr>"

definition accumulate :: "rounding \<Rightarrow> loop_state \<Rightarrow> triangle \<Rightarrow> loop_state" where
  "accumulate r st T = tally r st (contribution r T)"

text \<open>The two statements after the loop, for a centre of mass already computed.\<close>

definition finishAt :: "rounding \<Rightarrow> btScalar \<Rightarrow> btMatrix3x3 \<Rightarrow> btVector3 \<Rightarrow> MassProperties" where
  "finishAt r V M c =
     \<lparr> volume = V, centerOfMass = c, inertia = applyInverseParallelAxisTheorem r M c V \<rparr>"

text \<open>The result computed from a list of triangles.\<close>

definition meshResult :: "rounding \<Rightarrow> triangle list \<Rightarrow> MassProperties" where
  "meshResult r ts = finish r (foldl (accumulate r) (initialState r) ts)"




text \<open>A value of the code is near a real number when it is finite and within 1/1000000 of it.\<close>

fun near :: "btScalar \<Rightarrow> real \<Rightarrow> bool" where
  "near (Fin x) y = (\<bar>x - y\<bar> \<le> 1 / 1000000)"
| "near PInf y = False"
| "near NInf y = False"
| "near NaN y = False"

subsection \<open>Arithmetic without rounding\<close>

text \<open>
  With the rounding \<open>exact\<close> the operations on finite values are those of the real
  numbers. The following definitions state over the reals what the functions of the
  code compute then; the lemmas of the section on exact arithmetic prove that they do.
  \<open>rvec\<close> is a vector and \<open>rmat\<close> a matrix of real numbers, \<open>finVec\<close> and \<open>finMat\<close> the
  \<^verbatim>\<open>btVector3\<close> and the \<^verbatim>\<open>btMatrix3x3\<close> of these finite values.
\<close>

datatype rvec = RVec real real real

datatype rmat = RMat rvec rvec rvec

type_synonym rtriangle = "rvec \<times> rvec \<times> rvec"

fun finVec :: "rvec \<Rightarrow> btVector3" where
  "finVec (RVec x y z) = Vec3 (Fin x) (Fin y) (Fin z)"

fun finMat :: "rmat \<Rightarrow> btMatrix3x3" where
  "finMat (RMat a b c) = Mat3 (finVec a) (finVec b) (finVec c)"

fun finTri :: "rtriangle \<Rightarrow> triangle" where
  "finTri (a, b, c) = (finVec a, finVec b, finVec c)"

fun rvget :: "rvec \<Rightarrow> nat \<Rightarrow> real" where
  "rvget (RVec x y z) i = (if i = 0 then x else if i = 1 then y else z)"

fun rmrow :: "rmat \<Rightarrow> nat \<Rightarrow> rvec" where
  "rmrow (RMat r0 r1 r2) i = (if i = 0 then r0 else if i = 1 then r1 else r2)"

fun rmget :: "rmat \<Rightarrow> nat \<Rightarrow> nat \<Rightarrow> real" where
  "rmget m i j = rvget (rmrow m i) j"

definition rvzero :: rvec where
  "rvzero = RVec 0 0 0"

definition rmzero :: rmat where
  "rmzero = RMat rvzero rvzero rvzero"

fun rvadd :: "rvec \<Rightarrow> rvec \<Rightarrow> rvec" where
  "rvadd (RVec a b c) (RVec x y z) = RVec (a + x) (b + y) (c + z)"

fun rvsub :: "rvec \<Rightarrow> rvec \<Rightarrow> rvec" where
  "rvsub (RVec a b c) (RVec x y z) = RVec (a - x) (b - y) (c - z)"

fun rvscale :: "real \<Rightarrow> rvec \<Rightarrow> rvec" where
  "rvscale s (RVec x y z) = RVec (s * x) (s * y) (s * z)"

fun rvdot :: "rvec \<Rightarrow> rvec \<Rightarrow> real" where
  "rvdot (RVec a b c) (RVec x y z) = a * x + b * y + c * z"

fun rvcross :: "rvec \<Rightarrow> rvec \<Rightarrow> rvec" where
  "rvcross (RVec a b c) (RVec x y z) = RVec (b * z - c * y) (c * x - a * z) (a * y - b * x)"

fun rmadd :: "rmat \<Rightarrow> rmat \<Rightarrow> rmat" where
  "rmadd (RMat a b c) (RMat x y z) = RMat (rvadd a x) (rvadd b y) (rvadd c z)"

text \<open>Six times the signed volume: the numerator of \<^verbatim>\<open>computeTetrahedronVolume\<close>.\<close>

definition signedVolume6 :: "rvec \<Rightarrow> rvec \<Rightarrow> rvec \<Rightarrow> rvec \<Rightarrow> real" where
  "signedVolume6 p0 p1 p2 p3 = rvdot (rvcross (rvsub p2 p1) (rvsub p3 p2)) (rvsub p3 p0)"

definition exactVolume :: "rvec \<Rightarrow> rvec \<Rightarrow> rvec \<Rightarrow> rvec \<Rightarrow> real" where
  "exactVolume p0 p1 p2 p3 = signedVolume6 p0 p1 p2 p3 / 6"

definition exactCenter :: "rvec \<Rightarrow> rvec \<Rightarrow> rvec \<Rightarrow> rvec" where
  "exactCenter q1 q2 q3 = rvscale (1 / 4) (rvadd (rvadd q1 q2) q3)"

definition exactDiag :: "real \<Rightarrow> rvec \<Rightarrow> rvec \<Rightarrow> rvec \<Rightarrow> rvec \<Rightarrow> nat \<Rightarrow> nat \<Rightarrow> real" where
  "exactDiag mass p0 p1 p2 p3 j k = mass * (1 / 10) *
     ( rvget p0 j * (rvget p0 j + rvget p1 j + rvget p2 j + rvget p3 j)
     + rvget p1 j * (rvget p1 j + rvget p2 j + rvget p3 j)
     + rvget p2 j * (rvget p2 j + rvget p3 j)
     + rvget p3 j * rvget p3 j
     + rvget p0 k * (rvget p0 k + rvget p1 k + rvget p2 k + rvget p3 k)
     + rvget p1 k * (rvget p1 k + rvget p2 k + rvget p3 k)
     + rvget p2 k * (rvget p2 k + rvget p3 k)
     + rvget p3 k * rvget p3 k )"

definition exactOff :: "real \<Rightarrow> rvec \<Rightarrow> rvec \<Rightarrow> rvec \<Rightarrow> rvec \<Rightarrow> nat \<Rightarrow> nat \<Rightarrow> real" where
  "exactOff mass p0 p1 p2 p3 j k = - mass * (1 / 20) *
     ( 2 * ( rvget p0 j * rvget p0 k + rvget p1 j * rvget p1 k
           + rvget p2 j * rvget p2 k + rvget p3 j * rvget p3 k )
     + rvget p0 j * (rvget p1 k + rvget p2 k + rvget p3 k)
     + rvget p1 j * (rvget p0 k + rvget p2 k + rvget p3 k)
     + rvget p2 j * (rvget p0 k + rvget p1 k + rvget p3 k)
     + rvget p3 j * (rvget p0 k + rvget p1 k + rvget p2 k) )"

definition exactTetraInertia :: "real \<Rightarrow> rvec \<Rightarrow> rvec \<Rightarrow> rvec \<Rightarrow> rvec \<Rightarrow> rmat" where
  "exactTetraInertia mass p0 p1 p2 p3 =
     RMat (RVec (exactDiag mass p0 p1 p2 p3 1 2) (exactOff mass p0 p1 p2 p3 0 1)
                (exactOff mass p0 p1 p2 p3 2 0))
          (RVec (exactOff mass p0 p1 p2 p3 0 1) (exactDiag mass p0 p1 p2 p3 2 0)
                (exactOff mass p0 p1 p2 p3 1 2))
          (RVec (exactOff mass p0 p1 p2 p3 2 0) (exactOff mass p0 p1 p2 p3 1 2)
                (exactDiag mass p0 p1 p2 p3 0 1))"

fun exactShift :: "rmat \<Rightarrow> rvec \<Rightarrow> real \<Rightarrow> rmat" where
  "exactShift (RMat (RVec a b c) (RVec d e f) (RVec g h i)) (RVec x y z) mass =
     RMat (RVec (a + mass * (y * y + z * z)) (b - mass * x * y) (c - mass * x * z))
          (RVec (d - mass * x * y) (e + mass * (x * x + z * z)) (f - mass * y * z))
          (RVec (g - mass * x * z) (h - mass * y * z) (i + mass * (x * x + y * y)))"

fun exactUnshift :: "rmat \<Rightarrow> rvec \<Rightarrow> real \<Rightarrow> rmat" where
  "exactUnshift (RMat (RVec a b c) (RVec d e f) (RVec g h i)) (RVec x y z) mass =
     RMat (RVec (a - mass * (y * y + z * z)) (b + mass * x * y) (c + mass * x * z))
          (RVec (d + mass * x * y) (e - mass * (x * x + z * z)) (f + mass * y * z))
          (RVec (g + mass * x * z) (h + mass * y * z) (i - mass * (x * x + y * y)))"

text \<open>
  What one triangle adds to the three totals: the signed volume of its tetrahedron, the
  volume times the centre, and the inertia of the tetrahedron about the origin.
\<close>

fun triVolume :: "rtriangle \<Rightarrow> real" where
  "triVolume (q1, q2, q3) = exactVolume (RVec 0 0 0) q1 q2 q3"

fun triMoment :: "rtriangle \<Rightarrow> rvec" where
  "triMoment (q1, q2, q3) =
     rvscale (exactVolume (RVec 0 0 0) q1 q2 q3) (exactCenter q1 q2 q3)"

fun triInertia :: "rtriangle \<Rightarrow> rmat" where
  "triInertia (q1, q2, q3) =
     (let q0 = RVec 0 0 0;
          V = exactVolume q0 q1 q2 q3;
          c = exactCenter q1 q2 q3
      in exactShift
           (exactTetraInertia V (rvsub q0 c) (rvsub q1 c) (rvsub q2 c) (rvsub q3 c)) c V)"

text \<open>The three totals of a list of triangles, coordinate by coordinate.\<close>

definition totalVolume :: "rtriangle list \<Rightarrow> real" where
  "totalVolume ts = sum_list (map triVolume ts)"

definition totalMoment :: "rtriangle list \<Rightarrow> rvec" where
  "totalMoment ts = RVec (\<Sum>T\<leftarrow>ts. rvget (triMoment T) 0) (\<Sum>T\<leftarrow>ts. rvget (triMoment T) 1)
                         (\<Sum>T\<leftarrow>ts. rvget (triMoment T) 2)"

definition totalInertia :: "rtriangle list \<Rightarrow> rmat" where
  "totalInertia ts =
     RMat (RVec (\<Sum>T\<leftarrow>ts. rmget (triInertia T) 0 0) (\<Sum>T\<leftarrow>ts. rmget (triInertia T) 0 1)
                (\<Sum>T\<leftarrow>ts. rmget (triInertia T) 0 2))
          (RVec (\<Sum>T\<leftarrow>ts. rmget (triInertia T) 1 0) (\<Sum>T\<leftarrow>ts. rmget (triInertia T) 1 1)
                (\<Sum>T\<leftarrow>ts. rmget (triInertia T) 1 2))
          (RVec (\<Sum>T\<leftarrow>ts. rmget (triInertia T) 2 0) (\<Sum>T\<leftarrow>ts. rmget (triInertia T) 2 1)
                (\<Sum>T\<leftarrow>ts. rmget (triInertia T) 2 2))"

text \<open>The centre of mass and the result computed from the totals, for a volume that is not zero.\<close>

definition exactCenterOfMass :: "rtriangle list \<Rightarrow> rvec" where
  "exactCenterOfMass ts = rvscale (1 / totalVolume ts) (totalMoment ts)"

definition exactResult :: "rtriangle list \<Rightarrow> MassProperties" where
  "exactResult ts =
     \<lparr> volume = Fin (totalVolume ts),
       centerOfMass = finVec (exactCenterOfMass ts),
       inertia = finMat (exactUnshift (totalInertia ts) (exactCenterOfMass ts)
                           (totalVolume ts)) \<rparr>"

text \<open>
  First and second moments of a tetrahedron, scaled: the signed volume times the sum of
  a coordinate (24 times the first moment), and the signed volume times the quadratic
  form of two coordinates (120 times the second moment).
\<close>

definition moment1 :: "rvec \<Rightarrow> rvec \<Rightarrow> rvec \<Rightarrow> rvec \<Rightarrow> nat \<Rightarrow> real" where
  "moment1 v0 v1 v2 v3 j =
     signedVolume6 v0 v1 v2 v3 * (rvget v0 j + rvget v1 j + rvget v2 j + rvget v3 j)"

definition moment2 :: "rvec \<Rightarrow> rvec \<Rightarrow> rvec \<Rightarrow> rvec \<Rightarrow> nat \<Rightarrow> nat \<Rightarrow> real" where
  "moment2 v0 v1 v2 v3 j k =
     signedVolume6 v0 v1 v2 v3 *
       (rvget v0 j * rvget v0 k + rvget v1 j * rvget v1 k + rvget v2 j * rvget v2 k
        + rvget v3 j * rvget v3 k
        + (rvget v0 j + rvget v1 j + rvget v2 j + rvget v3 j)
          * (rvget v0 k + rvget v1 k + rvget v2 k + rvget v3 k))"












text \<open>The vertices of the unit cube as vectors of real numbers.\<close>

definition cubeCorners :: "rvec list" where
  "cubeCorners =
     [ RVec (-1/2) (-1/2) (-1/2), RVec (1/2) (-1/2) (-1/2),
       RVec (1/2) (1/2) (-1/2),   RVec (-1/2) (1/2) (-1/2),
       RVec (-1/2) (-1/2) (1/2),  RVec (1/2) (-1/2) (1/2),
       RVec (1/2) (1/2) (1/2),    RVec (-1/2) (1/2) (1/2) ]"

text \<open>
  A triangle is wound outward with respect to the origin when its normal
  (b - a) x (c - b) points away from the origin.
\<close>

fun outwardWound :: "rtriangle \<Rightarrow> bool" where
  "outwardWound (a, b, c) = (0 < rvdot (rvcross (rvsub b a) (rvsub c b)) a)"

text \<open>A vector or matrix is near a real one when each of its entries is.\<close>

fun nearVec :: "btVector3 \<Rightarrow> rvec \<Rightarrow> bool" where
  "nearVec (Vec3 a b c) (RVec x y z) = (near a x \<and> near b y \<and> near c z)"

fun nearMat :: "btMatrix3x3 \<Rightarrow> rmat \<Rightarrow> bool" where
  "nearMat (Mat3 a b c) (RMat x y z) = (nearVec a x \<and> nearVec b y \<and> nearVec c z)"

section \<open>Basic facts\<close>

lemma upt3:
  "[0..<3] = [0, 1, 2]" "[Suc 0..<3] = [1, 2]" "[1..<3] = [1, 2]" "[2..<3] = [2]"
  "[3..<3] = []" "[Suc (Suc 0)..<3] = [2]" "[Suc (Suc (Suc 0))..<3] = []"
  by (simp_all add: upt_rec)

lemma tetraInertiaStep_alt:
  "tetraInertiaStep r mass p0 p1 p2 p3 i M =
     (let j = (i + 1) mod 3; k = (j + 1) mod 3
      in mput (mput (mput M i i (tetraDiag r mass p0 p1 p2 p3 j k))
                 k j (tetraOff r mass p0 p1 p2 p3 j k))
            j k (tetraOff r mass p0 p1 p2 p3 j k))"
  by (simp add: tetraInertiaStep_def tetraDiag_def tetraOff_def Let_def)

text \<open>All nine entries are written, whatever the matrix held before.\<close>

lemma computeTetrahedronInertia_explicit:
  "computeTetrahedronInertia r mass p0 p1 p2 p3 M =
     symMat3 (tetraDiag r mass p0 p1 p2 p3 1 2) (tetraDiag r mass p0 p1 p2 p3 2 0)
       (tetraDiag r mass p0 p1 p2 p3 0 1) (tetraOff r mass p0 p1 p2 p3 1 2)
       (tetraOff r mass p0 p1 p2 p3 2 0) (tetraOff r mass p0 p1 p2 p3 0 1)"
proof -
  obtain r0 r1 r2 where m: "M = Mat3 r0 r1 r2" by (cases M)
  obtain a b c where r0: "r0 = Vec3 a b c" by (cases r0)
  obtain d e f where r1: "r1 = Vec3 d e f" by (cases r1)
  obtain g h i where r2: "r2 = Vec3 g h i" by (cases r2)
  show ?thesis
    by (simp add: m r0 r1 r2 computeTetrahedronInertia_def tetraInertiaStep_alt Let_def
        numeral_2_eq_2 symMat3_def)
qed

lemma computeTetrahedronInertia_overwrites:
  "computeTetrahedronInertia r mass p0 p1 p2 p3 M = computeTetrahedronInertia r mass p0 p1 p2 p3 M'"
  by (simp add: computeTetrahedronInertia_explicit)

lemma applyParallelAxisTheorem_explicit:
  "applyParallelAxisTheorem r M shift mass =
shiftedIf r M shift mass (length2 r shift)"
proof -
  obtain r0 r1 r2 where m: "M = Mat3 r0 r1 r2" by (cases M)
  obtain a b c where r0: "r0 = Vec3 a b c" by (cases r0)
  obtain d e f where r1: "r1 = Vec3 d e f" by (cases r1)
  obtain g h i where r2: "r2 = Vec3 g h i" by (cases r2)
  obtain x y z where s: "shift = Vec3 x y z" by (cases shift)
  show ?thesis
    by (simp add: m r0 r1 r2 s applyParallelAxisTheorem_def parallelAxisStep_def upt3 Let_def
        shiftedIf_def)
qed

lemma applyInverseParallelAxisTheorem_explicit:
  "applyInverseParallelAxisTheorem r M shift mass =
unshiftedIf r M shift mass (length2 r shift)"
proof -
  obtain r0 r1 r2 where m: "M = Mat3 r0 r1 r2" by (cases M)
  obtain a b c where r0: "r0 = Vec3 a b c" by (cases r0)
  obtain d e f where r1: "r1 = Vec3 d e f" by (cases r1)
  obtain g h i where r2: "r2 = Vec3 g h i" by (cases r2)
  obtain x y z where s: "shift = Vec3 x y z" by (cases shift)
  show ?thesis
    by (simp add: m r0 r1 r2 s applyInverseParallelAxisTheorem_def inverseParallelAxisStep_def
        upt3 Let_def unshiftedIf_def)
qed

subsection \<open>The loop as a fold over the triangles\<close>

lemma loopBody_explicit:
  "loopBody r points tris i st =
     (if indicesOK points tris i
      then Inr (accumulate r st (triangleAt points tris i))
      else Inl AssertionFailed)"
  by (simp add: loopBody_def indicesOK_def triangleAt_def indexTriple_def Let_def accumulate_def
      contributionAt_def inertiaAbout_def
      computeTetrahedronInertia_overwrites [of _ _ _ _ _ _ "tetraInertia st" mzero])

lemma runLoop_explicit:
  "runLoop r points tris js st =
     (if \<forall>i\<in>set js. indicesOK points tris i
      then Inr (foldl (accumulate r) st (map (triangleAt points tris) js))
      else Inl AssertionFailed)"
proof (induction js arbitrary: st)
  case Nil
  show ?case by simp
next
  case (Cons j js)
  show ?case
    by (simp add: loopBody_explicit Cons.IH)
qed

lemma computeMassProperties_explicit:
  "computeMassProperties r points tris =
     (if \<forall>i<numTriangles tris. indicesOK points tris i
      then Inr (meshResult r (meshTriangles points tris))
      else Inl AssertionFailed)"
  by (simp add: computeMassProperties_def runLoop_explicit meshResult_def meshTriangles_def)

subsection \<open>Only the whole triples are read\<close>

lemma uint32_le: "uint32 n \<le> n"
  by (simp add: uint32_def)

lemma read_index_bound:
  assumes "i < numTriangles tris" and "d < 3"
  shows "uint32 (uint32 (3 * i) + d) < 3 * (length tris div 3)"
proof -
  have "i < length tris div 3"
    using assms(1) uint32_le [of "length tris div 3"] by (simp add: numTriangles_def)
  moreover have "uint32 (uint32 (3 * i) + d) \<le> 3 * i + d"
    using uint32_le [of "uint32 (3 * i) + d"] uint32_le [of "3 * i"] by linarith
  ultimately show ?thesis using assms(2) by linarith
qed

lemma read_index_bound0:
  assumes "i < numTriangles tris"
  shows "uint32 (3 * i) < 3 * (length tris div 3)"
proof -
  have "i < length tris div 3"
    using assms(1) uint32_le [of "length tris div 3"] by (simp add: numTriangles_def)
  then show ?thesis using uint32_le [of "3 * i"] by linarith
qed

lemma read_in_range:
  assumes "i < numTriangles tris"
  shows "uint32 (3 * i) < length tris" "uint32 (uint32 (3 * i) + 1) < length tris"
    "uint32 (uint32 (3 * i) + 2) < length tris"
proof -
  have le: "3 * (length tris div 3) \<le> length tris" by simp
  show "uint32 (3 * i) < length tris"
    using read_index_bound0 [OF assms] le by linarith
  show "uint32 (uint32 (3 * i) + 1) < length tris"
    using read_index_bound [OF assms, of 1] le by simp
  show "uint32 (uint32 (3 * i) + 2) < length tris"
    using read_index_bound [OF assms, of 2] le by simp
qed

lemma numTriangles_take: "numTriangles (take (3 * (length tris div 3)) tris) = numTriangles tris"
proof -
  have "min (length tris) (3 * (length tris div 3)) = 3 * (length tris div 3)" by simp
  then show ?thesis by (simp add: numTriangles_def)
qed

lemma indicesOK_take:
  assumes "i < numTriangles tris"
  shows "indicesOK points (take (3 * (length tris div 3)) tris) i = indicesOK points tris i"
  using read_index_bound0 [OF assms] read_index_bound [OF assms, of 1]
    read_index_bound [OF assms, of 2]
  by (simp add: indicesOK_def)

lemma indexTriple_take:
  assumes "i < numTriangles tris"
  shows "indexTriple (take (3 * (length tris div 3)) tris) i = indexTriple tris i"
  using read_index_bound0 [OF assms] read_index_bound [OF assms, of 1]
    read_index_bound [OF assms, of 2]
  by (simp add: indexTriple_def)

lemma triangleAt_take:
  assumes "i < numTriangles tris"
  shows "triangleAt points (take (3 * (length tris div 3)) tris) i = triangleAt points tris i"
  by (simp add: triangleAt_def indexTriple_take [OF assms])

lemma meshTriangles_take:
  "meshTriangles points (take (3 * (length tris div 3)) tris) = meshTriangles points tris"
  unfolding meshTriangles_def numTriangles_take
  by (rule map_cong) (simp_all add: triangleAt_take)

lemma computeMassProperties_take:
  "computeMassProperties r points tris =
   computeMassProperties r points (take (3 * (length tris div 3)) tris)"
proof -
  let ?tris' = "take (3 * (length tris div 3)) tris"
  have ok: "(\<forall>i<numTriangles tris. indicesOK points ?tris' i)
      = (\<forall>i<numTriangles tris. indicesOK points tris i)"
    by (simp add: indicesOK_take)
  show ?thesis
    by (simp only: computeMassProperties_explicit numTriangles_take meshTriangles_take ok)
qed

subsection \<open>Failures\<close>

lemma computeMassProperties_fails:
  assumes "computeMassProperties r points tris = Inl e"
  shows "\<exists>i<numTriangles tris. \<not> indicesOK points tris i"
  using assms by (simp add: computeMassProperties_explicit split: if_splits)

lemma all_valid_indicesOK:
  assumes "\<forall>k<length tris. tris ! k < numPoints points"
  shows "\<forall>i<numTriangles tris. indicesOK points tris i"
proof (intro allI impI)
  fix i assume "i < numTriangles tris"
  from read_in_range [OF this] assms show "indicesOK points tris i"
    by (simp add: indicesOK_def)
qed

lemma failure_index:
  assumes "i < numTriangles tris" and "\<not> indicesOK points tris i"
  shows "\<exists>k<3 * (length tris div 3). \<not> tris ! k < numPoints points"
  using assms(2) read_index_bound0 [OF assms(1)] read_index_bound [OF assms(1), of 1]
    read_index_bound [OF assms(1), of 2]
  by (auto simp add: indicesOK_def)

lemma all_less_upt: "(\<forall>i<n. P i) \<longleftrightarrow> list_all P [0..<n]"
  by (auto simp: list_all_iff)

subsection \<open>Symmetry\<close>

lemma symmetric_tetraInertia: "symmetric (computeTetrahedronInertia r mass p0 p1 p2 p3 M)"
  by (simp add: computeTetrahedronInertia_explicit symmetric_def symMat3_def)

lemma symmetric_shiftedBy:
  assumes "symmetric M"
  shows "symmetric (shiftedBy r M shift mass D)"
proof -
  obtain r0 r1 r2 where m: "M = Mat3 r0 r1 r2" by (cases M)
  obtain a b c where r0: "r0 = Vec3 a b c" by (cases r0)
  obtain d e f where r1: "r1 = Vec3 d e f" by (cases r1)
  obtain g h i where r2: "r2 = Vec3 g h i" by (cases r2)
  obtain x y z where s: "shift = Vec3 x y z" by (cases shift)
  from assms show ?thesis
    by (simp add: m r0 r1 r2 s symmetric_def)
qed

lemma symmetric_unshiftedBy:
  assumes "symmetric M"
  shows "symmetric (unshiftedBy r M shift mass D)"
proof -
  obtain r0 r1 r2 where m: "M = Mat3 r0 r1 r2" by (cases M)
  obtain a b c where r0: "r0 = Vec3 a b c" by (cases r0)
  obtain d e f where r1: "r1 = Vec3 d e f" by (cases r1)
  obtain g h i where r2: "r2 = Vec3 g h i" by (cases r2)
  obtain x y z where s: "shift = Vec3 x y z" by (cases shift)
  from assms show ?thesis
    by (simp add: m r0 r1 r2 s symmetric_def)
qed

lemma symmetric_parallelAxis:
  "symmetric M \<Longrightarrow> symmetric (applyParallelAxisTheorem r M shift mass)"
  by (simp add: applyParallelAxisTheorem_explicit shiftedIf_def symmetric_shiftedBy)

lemma symmetric_inverseParallelAxis:
  "symmetric M \<Longrightarrow> symmetric (applyInverseParallelAxisTheorem r M shift mass)"
  by (simp add: applyInverseParallelAxisTheorem_explicit unshiftedIf_def symmetric_unshiftedBy)

lemma symmetric_madd:
  assumes "symmetric A" and "symmetric B"
  shows "symmetric (madd r A B)"
proof -
  obtain r0 r1 r2 where m: "A = Mat3 r0 r1 r2" by (cases A)
  obtain a b c where r0: "r0 = Vec3 a b c" by (cases r0)
  obtain d e f where r1: "r1 = Vec3 d e f" by (cases r1)
  obtain g h i where r2: "r2 = Vec3 g h i" by (cases r2)
  obtain s0 s1 s2 where n: "B = Mat3 s0 s1 s2" by (cases B)
  obtain a' b' c' where s0: "s0 = Vec3 a' b' c'" by (cases s0)
  obtain d' e' f' where s1: "s1 = Vec3 d' e' f'" by (cases s1)
  obtain g' h' i' where s2: "s2 = Vec3 g' h' i'" by (cases s2)
  from assms show ?thesis
    by (simp add: m r0 r1 r2 n s0 s1 s2 symmetric_def)
qed

lemma symmetric_mzero: "symmetric mzero"
  by (simp add: symmetric_def mzero_def vzero_def)

lemma symmetric_contribution: "symmetric (snd (snd (contribution r T)))"
proof -
  obtain a b c where T: "T = (a, b, c)" by (cases T)
  show ?thesis
    unfolding T contribution.simps contributionAt_def inertiaAbout_def snd_conv
    by (rule symmetric_parallelAxis [OF symmetric_tetraInertia])
qed

lemma accumulate_inertia:
  "m_inertia (accumulate r st T) = madd r (m_inertia st) (snd (snd (contribution r T)))"
  by (cases "contribution r T") (simp add: accumulate_def)

lemma loopBody_symmetric:
  assumes "loopBody r points tris i st = Inr st'" and "symmetric (m_inertia st)"
  shows "symmetric (m_inertia st')"
proof -
  from assms(1) have "st' = accumulate r st (triangleAt points tris i)"
    by (auto simp add: loopBody_explicit split: if_splits)
  then show ?thesis
    using symmetric_madd [OF assms(2) symmetric_contribution, of r r "triangleAt points tris i"]
    by (simp add: accumulate_inertia)
qed

lemma runLoop_symmetric:
  assumes "runLoop r points tris js st = Inr st'" and "symmetric (m_inertia st)"
  shows "symmetric (m_inertia st')"
  using assms
proof (induction js arbitrary: st)
  case Nil
  then show ?case by simp
next
  case (Cons j js)
  from Cons.prems(1) obtain st1 where b: "loopBody r points tris j st = Inr st1"
    and l: "runLoop r points tris js st1 = Inr st'"
    by (auto split: sum.splits)
  from loopBody_symmetric [OF b Cons.prems(2)] have "symmetric (m_inertia st1)" .
  from Cons.IH [OF l this] show ?case .
qed

lemma finish_symmetric:
  assumes "symmetric (m_inertia st)"
  shows "symmetric (inertia (finish r st))"
  using assms by (simp add: finish_def Let_def symmetric_inverseParallelAxis)

lemma computeMassProperties_symmetric:
  assumes "computeMassProperties r points tris = Inr res"
  shows "symmetric (inertia res)"
proof -
  from assms obtain st where
    l: "runLoop r points tris [0 ..< numTriangles tris] (initialState r) = Inr st"
    and res: "res = finish r st"
    by (auto simp add: computeMassProperties_def split: sum.splits)
  have "symmetric (m_inertia (initialState r))"
    by (simp add: initialState_def symmetric_mzero)
  from runLoop_symmetric [OF l this] have "symmetric (m_inertia st)" .
  from finish_symmetric [OF this] res show ?thesis by simp
qed

subsection \<open>The result from the triangles\<close>

lemma finish_eval:
  "finish r st =
     finishAt r (m_volume st) (m_inertia st)
       (vscale r (fdiv r (r 1) (m_volume st)) (weightedCenter st))"
  by (simp add: finish_def finishAt_def Let_def)

section \<open>Exact arithmetic\<close>

subsection \<open>The signed volume\<close>

lemma volume_signedVolume6:
  "exactVolume p0 p1 p2 p3 = signedVolume6 p0 p1 p2 p3 / 6"
  by (simp add: exactVolume_def)




subsection \<open>The totals of a list of triangles\<close>

lemma rvec_expand: "v = RVec (rvget v 0) (rvget v 1) (rvget v 2)"
  by (cases v) simp

lemma rmat_expand:
  "M = RMat (RVec (rmget M 0 0) (rmget M 0 1) (rmget M 0 2))
            (RVec (rmget M 1 0) (rmget M 1 1) (rmget M 1 2))
            (RVec (rmget M 2 0) (rmget M 2 1) (rmget M 2 2))"
proof -
  obtain r0 r1 r2 where m: "M = RMat r0 r1 r2" by (cases M)
  show ?thesis unfolding m by (cases r0; cases r1; cases r2) simp
qed

lemma rvadd_assoc: "rvadd (rvadd a b) c = rvadd a (rvadd b c)"
  by (cases a; cases b; cases c) simp

lemma rmadd_assoc: "rmadd (rmadd a b) c = rmadd a (rmadd b c)"
  by (cases a; cases b; cases c) (simp add: rvadd_assoc)

lemma rvadd_rvzero: "rvadd a rvzero = a"
  by (cases a) (simp add: rvzero_def)

lemma rmadd_rmzero: "rmadd a rmzero = a"
  by (cases a) (simp add: rmzero_def rvadd_rvzero)

lemma rvadd_rvzero_left: "rvadd rvzero a = a"
  by (cases a) (simp add: rvzero_def)

lemma rmadd_rmzero_left: "rmadd rmzero a = a"
  by (cases a) (simp add: rmzero_def rvadd_rvzero_left)

lemma totalVolume_simps:
  "totalVolume [] = 0" "totalVolume (T # ts) = triVolume T + totalVolume ts"
  by (simp_all add: totalVolume_def)

lemma totalMoment_simps:
  "totalMoment [] = rvzero" "totalMoment (T # ts) = rvadd (triMoment T) (totalMoment ts)"
  by (simp_all add: totalMoment_def rvzero_def) (cases "triMoment T", simp)

lemma totalInertia_Nil: "totalInertia [] = rmzero"
  by (simp add: totalInertia_def rmzero_def rvzero_def)

lemma totalInertia_Cons: "totalInertia (T # ts) = rmadd (triInertia T) (totalInertia ts)"
proof -
  obtain r0 r1 r2 where m: "triInertia T = RMat r0 r1 r2" by (cases "triInertia T")
  show ?thesis by (cases r0; cases r1; cases r2) (simp add: totalInertia_def m)
qed

subsection \<open>The contribution of one triangle, as moments\<close>

lemma triVolume_explicit: "triVolume (a, b, c) = signedVolume6 (RVec 0 0 0) a b c / 6"
  by (simp add: volume_signedVolume6)

lemma triMoment_explicit:
  "triMoment (a, b, c) = RVec (moment1 (RVec 0 0 0) a b c 0 / 24) (moment1 (RVec 0 0 0) a b c 1 / 24)
                              (moment1 (RVec 0 0 0) a b c 2 / 24)"
  by (cases a; cases b; cases c) (simp add: volume_signedVolume6 moment1_def exactCenter_def)

lemma triInertia_explicit:
  "triInertia (a, b, c) =
     RMat (RVec ((moment2 (RVec 0 0 0) a b c 1 1 + moment2 (RVec 0 0 0) a b c 2 2) / 120)
                (- moment2 (RVec 0 0 0) a b c 0 1 / 120)
                (- moment2 (RVec 0 0 0) a b c 0 2 / 120))
          (RVec (- moment2 (RVec 0 0 0) a b c 0 1 / 120)
                ((moment2 (RVec 0 0 0) a b c 0 0 + moment2 (RVec 0 0 0) a b c 2 2) / 120)
                (- moment2 (RVec 0 0 0) a b c 1 2 / 120))
          (RVec (- moment2 (RVec 0 0 0) a b c 0 2 / 120)
                (- moment2 (RVec 0 0 0) a b c 1 2 / 120)
                ((moment2 (RVec 0 0 0) a b c 0 0 + moment2 (RVec 0 0 0) a b c 1 1) / 120))"
proof -
  obtain a1 a2 a3 where a: "a = RVec a1 a2 a3" by (cases a)
  obtain b1 b2 b3 where b: "b = RVec b1 b2 b3" by (cases b)
  obtain c1 c2 c3 where c: "c = RVec c1 c2 c3" by (cases c)
  define D where "D = signedVolume6 (RVec 0 0 0) a b c"
  show ?thesis
    unfolding a b c
    apply (simp add: volume_signedVolume6 exactCenter_def exactTetraInertia_def
        exactShift.simps Let_def moment2_def exactDiag_def exactOff_def
        D_def [unfolded a b c, symmetric])
    apply (intro conjI)
            apply (simp_all add: field_simps)
    done
qed

subsection \<open>Five points of space\<close>

















subsection \<open>Sums over the edges of a closed mesh\<close>







subsection \<open>Translating a closed mesh\<close>



lemma sum_list_map_divide: "(\<Sum>x\<leftarrow>xs. f x / c) = (\<Sum>x\<leftarrow>xs. f x) / (c::real)"
  by (induction xs) (simp_all add: add_divide_distrib)













subsection \<open>The code in exact arithmetic\<close>

text \<open>
  With the rounding \<open>exact\<close> and finite arguments every function of the code computes the
  finite value that the corresponding definition over the reals gives.
\<close>

lemma exact_ops:
  "exact x = Fin x"
  "fadd exact (Fin x) (Fin y) = Fin (x + y)"
  "fsub exact (Fin x) (Fin y) = Fin (x - y)"
  "fmul exact (Fin x) (Fin y) = Fin (x * y)"
  by (simp_all add: exact_def fsub_def)

lemma fdiv_exact: "y \<noteq> 0 \<Longrightarrow> fdiv exact (Fin x) (Fin y) = Fin (x / y)"
  by (simp add: exact_def)

lemma vget_finVec: "vget (finVec p) j = Fin (rvget p j)"
  by (cases p) simp

lemma vadd_exact: "vadd exact (finVec a) (finVec b) = finVec (rvadd a b)"
  by (cases a; cases b) (simp add: exact_ops)

lemma vsub_exact: "vsub exact (finVec a) (finVec b) = finVec (rvsub a b)"
  by (cases a; cases b) (simp add: exact_ops)

lemma vscale_exact: "vscale exact (Fin s) (finVec v) = finVec (rvscale s v)"
  by (cases v) (simp add: exact_ops mult.commute)

lemma vdot_exact: "vdot exact (finVec a) (finVec b) = Fin (rvdot a b)"
  by (cases a; cases b) (simp add: exact_ops)

lemma vcross_exact: "vcross exact (finVec a) (finVec b) = finVec (rvcross a b)"
  by (cases a; cases b) (simp add: exact_ops)

lemma madd_exact: "madd exact (finMat A) (finMat B) = finMat (rmadd A B)"
  by (cases A; cases B) (simp add: vadd_exact)

lemma origin_exact: "Vec3 (exact 0) (exact 0) (exact 0) = finVec (RVec 0 0 0)"
  by (simp add: exact_ops)

lemma vzero_exact: "vzero = finVec rvzero"
  by (simp add: vzero_def rvzero_def)

lemma mzero_exact: "mzero = finMat rmzero"
  by (simp add: mzero_def rmzero_def vzero_exact)

lemma computeTetrahedronVolume_exact:
  "computeTetrahedronVolume exact (finVec p0) (finVec p1) (finVec p2) (finVec p3)
     = Fin (exactVolume p0 p1 p2 p3)"
  by (simp add: computeTetrahedronVolume_def vsub_exact vcross_exact vdot_exact exact_ops(1)
      fdiv_exact exactVolume_def signedVolume6_def)

lemma tetraCenter_exact:
  "tetraCenter exact (finVec q1) (finVec q2) (finVec q3) = finVec (exactCenter q1 q2 q3)"
  by (simp add: tetraCenter_def exactCenter_def vadd_exact vscale_exact exact_ops(1))

lemma tetraDiag_exact:
  "tetraDiag exact (Fin m) (finVec p0) (finVec p1) (finVec p2) (finVec p3) j k
     = Fin (exactDiag m p0 p1 p2 p3 j k)"
  by (simp add: tetraDiag_def exactDiag_def vget_finVec exact_ops)

lemma tetraOff_exact:
  "tetraOff exact (Fin m) (finVec p0) (finVec p1) (finVec p2) (finVec p3) j k
     = Fin (exactOff m p0 p1 p2 p3 j k)"
  by (simp add: tetraOff_def exactOff_def vget_finVec exact_ops)

lemma computeTetrahedronInertia_exact:
  "computeTetrahedronInertia exact (Fin m) (finVec p0) (finVec p1) (finVec p2) (finVec p3) M
     = finMat (exactTetraInertia m p0 p1 p2 p3)"
  by (simp add: computeTetrahedronInertia_explicit symMat3_def tetraDiag_exact tetraOff_exact
      exactTetraInertia_def)

lemma squares_pos_iff:
  "0 < x * x + y * y + z * z \<longleftrightarrow> \<not> (x = 0 \<and> y = 0 \<and> z = (0::real))"
proof -
  have nn: "0 \<le> x * x + y * y + z * z" by simp
  have z: "x * x + y * y + z * z = 0 \<longleftrightarrow> x = 0 \<and> y = 0 \<and> z = 0"
    by (simp add: add_nonneg_eq_0_iff)
  show ?thesis using nn z by linarith
qed

text \<open>
  In exact arithmetic the guard \<^verbatim>\<open>distanceSquared > 0.0f\<close> changes nothing: where it is
  false the shift is the zero vector and the update would add zeros.
\<close>

lemma applyParallelAxisTheorem_exact:
  "applyParallelAxisTheorem exact (finMat M) (finVec s) (Fin m) = finMat (exactShift M s m)"
proof -
  obtain r0 r1 r2 where M: "M = RMat r0 r1 r2" by (cases M)
  obtain a b c where r0: "r0 = RVec a b c" by (cases r0)
  obtain d e f where r1: "r1 = RVec d e f" by (cases r1)
  obtain g h i where r2: "r2 = RVec g h i" by (cases r2)
  obtain x y z where s: "s = RVec x y z" by (cases s)
  show ?thesis
  proof (cases "0 < x * x + y * y + z * z")
    case True
    then show ?thesis
      by (simp add: M r0 r1 r2 s applyParallelAxisTheorem_explicit shiftedIf_def length2_def
          exact_ops algebra_simps)
  next
    case False
    then have "x = 0 \<and> y = 0 \<and> z = 0" by (simp add: squares_pos_iff)
    then show ?thesis
      by (simp add: M r0 r1 r2 s applyParallelAxisTheorem_explicit shiftedIf_def length2_def
          exact_ops)
  qed
qed

lemma applyInverseParallelAxisTheorem_exact:
  "applyInverseParallelAxisTheorem exact (finMat M) (finVec s) (Fin m)
     = finMat (exactUnshift M s m)"
proof -
  obtain r0 r1 r2 where M: "M = RMat r0 r1 r2" by (cases M)
  obtain a b c where r0: "r0 = RVec a b c" by (cases r0)
  obtain d e f where r1: "r1 = RVec d e f" by (cases r1)
  obtain g h i where r2: "r2 = RVec g h i" by (cases r2)
  obtain x y z where s: "s = RVec x y z" by (cases s)
  show ?thesis
  proof (cases "0 < x * x + y * y + z * z")
    case True
    then show ?thesis
      by (simp add: M r0 r1 r2 s applyInverseParallelAxisTheorem_explicit unshiftedIf_def
          length2_def exact_ops algebra_simps)
  next
    case False
    then have "x = 0 \<and> y = 0 \<and> z = 0" by (simp add: squares_pos_iff)
    then show ?thesis
      by (simp add: M r0 r1 r2 s applyInverseParallelAxisTheorem_explicit unshiftedIf_def
          length2_def exact_ops)
  qed
qed


lemma contribution_exact:
  "contribution exact (finTri (a, b, c)) =
     (Fin (exactVolume (RVec 0 0 0) a b c), finVec (exactCenter a b c),
      finMat (triInertia (a, b, c)))"
  by (simp add: contributionAt_def inertiaAbout_def origin_exact computeTetrahedronVolume_exact
      tetraCenter_exact vsub_exact computeTetrahedronInertia_exact
      applyParallelAxisTheorem_exact Let_def
      del: finVec.simps)

lemma accumulate_exact:
  assumes "m_volume st = Fin V" and "weightedCenter st = finVec W" and "m_inertia st = finMat I"
  shows "m_volume (accumulate exact st (finTri T)) = Fin (V + triVolume T)
       \<and> weightedCenter (accumulate exact st (finTri T)) = finVec (rvadd W (triMoment T))
       \<and> m_inertia (accumulate exact st (finTri T)) = finMat (rmadd I (triInertia T))"
proof -
  obtain a b c where T: "T = (a, b, c)" by (cases T)
  show ?thesis
    unfolding T accumulate_def contribution_exact
    by (simp add: assms exact_ops vscale_exact vadd_exact madd_exact
        del: finTri.simps triInertia.simps)
qed

lemma foldl_accumulate_exact:
  assumes "m_volume st = Fin V" and "weightedCenter st = finVec W" and "m_inertia st = finMat I"
  shows "m_volume (foldl (accumulate exact) st (map finTri ts)) = Fin (V + totalVolume ts)
       \<and> weightedCenter (foldl (accumulate exact) st (map finTri ts))
           = finVec (rvadd W (totalMoment ts))
       \<and> m_inertia (foldl (accumulate exact) st (map finTri ts))
           = finMat (rmadd I (totalInertia ts))"
  using assms
proof (induction ts arbitrary: st V W I)
  case Nil
  then show ?case
    by (simp add: totalVolume_simps totalMoment_simps totalInertia_Nil rvadd_rvzero
        rmadd_rmzero)
next
  case (Cons T ts)
  from accumulate_exact [OF Cons.prems, of T]
  have a: "m_volume (accumulate exact st (finTri T)) = Fin (V + triVolume T)"
    and b: "weightedCenter (accumulate exact st (finTri T)) = finVec (rvadd W (triMoment T))"
    and c: "m_inertia (accumulate exact st (finTri T)) = finMat (rmadd I (triInertia T))"
    by simp_all
  from Cons.IH [OF a b c] show ?case
    by (simp add: totalVolume_simps totalMoment_simps totalInertia_Cons rvadd_assoc
        rmadd_assoc add.assoc del: finTri.simps triInertia.simps triVolume.simps
        triMoment.simps)
qed

lemma loop_exact:
  "m_volume (foldl (accumulate exact) (initialState exact) (map finTri ts))
     = Fin (totalVolume ts)
   \<and> weightedCenter (foldl (accumulate exact) (initialState exact) (map finTri ts))
       = finVec (totalMoment ts)
   \<and> m_inertia (foldl (accumulate exact) (initialState exact) (map finTri ts))
       = finMat (totalInertia ts)"
  using foldl_accumulate_exact [of "initialState exact" 0 rvzero rmzero ts]
  by (simp add: initialState_def exact_ops vzero_exact mzero_exact rvadd_rvzero_left
      rmadd_rmzero_left)


lemma meshResult_exact:
  assumes "totalVolume ts \<noteq> 0"
  shows "meshResult exact (map finTri ts) = exactResult ts"
  using loop_exact [of ts] assms
  by (simp add: meshResult_def finish_def Let_def exact_ops fdiv_exact vscale_exact
      applyInverseParallelAxisTheorem_exact exactResult_def exactCenterOfMass_def)

subsection \<open>The triangles of a mesh whose vertices are mapped\<close>

lemma numPoints_map: "numPoints (map f points) = numPoints points"
  by (simp add: numPoints_def)

lemma numPoints_le: "numPoints points \<le> length points"
  by (simp add: numPoints_def uint32_def)

lemma indicesOK_map: "indicesOK (map f points) tris i = indicesOK points tris i"
  by (simp add: indicesOK_def numPoints_map)

lemma triangleAt_map:
  assumes "indicesOK points tris i"
  shows "triangleAt (map f points) tris i = mapTriangle f (triangleAt points tris i)"
proof -
  have r: "k < numPoints points \<Longrightarrow> map f points ! k = f (points ! k)" for k
    using numPoints_le [of points] by simp
  from assms(1) show ?thesis
    by (simp add: triangleAt_def indexTriple_def indicesOK_def r)
qed

lemma meshTriangles_map:
  assumes "\<forall>i<numTriangles tris. indicesOK points tris i"
  shows "meshTriangles (map f points) tris = map (mapTriangle f) (meshTriangles points tris)"
  using assms by (simp add: meshTriangles_def triangleAt_map)

lemma finTri_mapTriangle: "mapTriangle finVec = finTri"
  by (rule ext) auto


lemma computeMassProperties_exact:
  "computeMassProperties exact (map finVec points) tris =
     (if \<forall>i<numTriangles tris. indicesOK points tris i
      then Inr (meshResult exact (map finTri (meshTriangles points tris)))
      else Inl AssertionFailed)"
proof (cases "\<forall>i<numTriangles tris. indicesOK points tris i")
  case True
  have "meshTriangles (map finVec points) tris = map finTri (meshTriangles points tris)"
    unfolding finTri_mapTriangle [symmetric] by (rule meshTriangles_map [OF True])
  with True show ?thesis by (simp add: computeMassProperties_explicit indicesOK_map)
next
  case False
  then show ?thesis by (auto simp add: computeMassProperties_explicit indicesOK_map)
qed

subsection \<open>Translating a closed mesh in exact arithmetic\<close>



section \<open>Example meshes\<close>

subsection \<open>Closed meshes\<close>






subsection \<open>The unit cube\<close>

lemma cube_numTriangles: "numTriangles cubeTriangles = 12"
  by (simp add: numTriangles_def uint32_def cubeTriangles_def)



lemma cube_indicesOK: "\<forall>i<numTriangles cubeTriangles. indicesOK cubePoints cubeTriangles i"
  unfolding cube_numTriangles all_less_upt
  by (simp add: upt_rec indicesOK_def numPoints_def uint32_def cubePoints_def cubeTriangles_def)

lemma cubePoints_exact: "cubePoints = map finVec cubeCorners"
  by (simp add: cubePoints_def cubeCorners_def)

lemma cubeCorners_indicesOK:
  "\<forall>i<numTriangles cubeTriangles. indicesOK cubeCorners cubeTriangles i"
  using cube_indicesOK by (simp add: cubePoints_exact indicesOK_map)

lemma cube_exact_meshTriangles:
  "meshTriangles cubeCorners cubeTriangles =
     [ (RVec (-1/2) (-1/2) (-1/2), RVec (-1/2) (1/2) (-1/2), RVec (1/2) (1/2) (-1/2)),
       (RVec (-1/2) (-1/2) (-1/2), RVec (1/2) (1/2) (-1/2), RVec (1/2) (-1/2) (-1/2)),
       (RVec (-1/2) (-1/2) (1/2), RVec (1/2) (-1/2) (1/2), RVec (1/2) (1/2) (1/2)),
       (RVec (-1/2) (-1/2) (1/2), RVec (1/2) (1/2) (1/2), RVec (-1/2) (1/2) (1/2)),
       (RVec (-1/2) (-1/2) (-1/2), RVec (1/2) (-1/2) (-1/2), RVec (1/2) (-1/2) (1/2)),
       (RVec (-1/2) (-1/2) (-1/2), RVec (1/2) (-1/2) (1/2), RVec (-1/2) (-1/2) (1/2)),
       (RVec (-1/2) (1/2) (-1/2), RVec (-1/2) (1/2) (1/2), RVec (1/2) (1/2) (1/2)),
       (RVec (-1/2) (1/2) (-1/2), RVec (1/2) (1/2) (1/2), RVec (1/2) (1/2) (-1/2)),
       (RVec (-1/2) (-1/2) (-1/2), RVec (-1/2) (-1/2) (1/2), RVec (-1/2) (1/2) (1/2)),
       (RVec (-1/2) (-1/2) (-1/2), RVec (-1/2) (1/2) (1/2), RVec (-1/2) (1/2) (-1/2)),
       (RVec (1/2) (-1/2) (-1/2), RVec (1/2) (1/2) (-1/2), RVec (1/2) (1/2) (1/2)),
       (RVec (1/2) (-1/2) (-1/2), RVec (1/2) (1/2) (1/2), RVec (1/2) (-1/2) (1/2)) ]"
  unfolding meshTriangles_def cube_numTriangles
  by (simp add: triangleAt_def indexTriple_def uint32_def cubeCorners_def cubeTriangles_def
      upt_rec)

lemma cube_outward: "list_all outwardWound (meshTriangles cubeCorners cubeTriangles)"
  unfolding cube_exact_meshTriangles by simp

lemma cube_exact_totals:
  "totalVolume (meshTriangles cubeCorners cubeTriangles) = 1"
  "totalMoment (meshTriangles cubeCorners cubeTriangles) = RVec 0 0 0"
  "totalInertia (meshTriangles cubeCorners cubeTriangles)
     = RMat (RVec (1/6) 0 0) (RVec 0 (1/6) 0) (RVec 0 0 (1/6))"
  unfolding cube_exact_meshTriangles
  by (simp_all add: totalVolume_def totalMoment_def totalInertia_def triVolume_explicit
      triMoment_explicit triInertia_explicit moment1_def moment2_def signedVolume6_def
      del: triVolume.simps triMoment.simps triInertia.simps)

lemma cube_exact_result:
  "computeMassProperties exact cubePoints cubeTriangles =
     Inr \<lparr> volume = Fin 1, centerOfMass = Vec3 (Fin 0) (Fin 0) (Fin 0),
           inertia = Mat3 (Vec3 (Fin (1 / 6)) (Fin 0) (Fin 0))
                          (Vec3 (Fin 0) (Fin (1 / 6)) (Fin 0))
                          (Vec3 (Fin 0) (Fin 0) (Fin (1 / 6))) \<rparr>"
proof -
  have nz: "totalVolume (meshTriangles cubeCorners cubeTriangles) \<noteq> 0"
    by (simp add: cube_exact_totals)
  show ?thesis
    unfolding cubePoints_exact computeMassProperties_exact meshResult_exact [OF nz]
    using cubeCorners_indicesOK
    by (simp add: exactResult_def exactCenterOfMass_def cube_exact_totals)
qed

subsection \<open>The unit cube in binary32\<close>

text \<open>
  The run of the code on the cube in binary32, operation by operation: one lemma for what
  each pass of the loop computes from its triangle, one for the totals after the twelve
  passes, one for the two statements after the loop. Each is checked by rewriting with
  the definitions of the code and of the rounding.
\<close>

lemmas round32_eval = round32_def roundMag_def roundUlp_def pack32_def exponent32_def expStep_def
  rne_def rneFloor_def tieEven_def

lemmas round32_trace = round32_eval fsub_def computeTetrahedronVolume_def tetraCenter_def
  contributionAt_def inertiaAbout_def computeTetrahedronInertia_explicit symMat3_def
  tetraDiag_def tetraOff_def applyParallelAxisTheorem_explicit shiftedIf_def length2_def

lemma cube32_meshTriangles:
  "meshTriangles cubePoints cubeTriangles =
     [ (Vec3 (Fin (- (1 / 2))) (Fin (- (1 / 2))) (Fin (- (1 / 2))),
        Vec3 (Fin (- (1 / 2))) (Fin (1 / 2)) (Fin (- (1 / 2))),
        Vec3 (Fin (1 / 2)) (Fin (1 / 2)) (Fin (- (1 / 2)))),
       (Vec3 (Fin (- (1 / 2))) (Fin (- (1 / 2))) (Fin (- (1 / 2))),
        Vec3 (Fin (1 / 2)) (Fin (1 / 2)) (Fin (- (1 / 2))),
        Vec3 (Fin (1 / 2)) (Fin (- (1 / 2))) (Fin (- (1 / 2)))),
       (Vec3 (Fin (- (1 / 2))) (Fin (- (1 / 2))) (Fin (1 / 2)),
        Vec3 (Fin (1 / 2)) (Fin (- (1 / 2))) (Fin (1 / 2)),
        Vec3 (Fin (1 / 2)) (Fin (1 / 2)) (Fin (1 / 2))),
       (Vec3 (Fin (- (1 / 2))) (Fin (- (1 / 2))) (Fin (1 / 2)),
        Vec3 (Fin (1 / 2)) (Fin (1 / 2)) (Fin (1 / 2)),
        Vec3 (Fin (- (1 / 2))) (Fin (1 / 2)) (Fin (1 / 2))),
       (Vec3 (Fin (- (1 / 2))) (Fin (- (1 / 2))) (Fin (- (1 / 2))),
        Vec3 (Fin (1 / 2)) (Fin (- (1 / 2))) (Fin (- (1 / 2))),
        Vec3 (Fin (1 / 2)) (Fin (- (1 / 2))) (Fin (1 / 2))),
       (Vec3 (Fin (- (1 / 2))) (Fin (- (1 / 2))) (Fin (- (1 / 2))),
        Vec3 (Fin (1 / 2)) (Fin (- (1 / 2))) (Fin (1 / 2)),
        Vec3 (Fin (- (1 / 2))) (Fin (- (1 / 2))) (Fin (1 / 2))),
       (Vec3 (Fin (- (1 / 2))) (Fin (1 / 2)) (Fin (- (1 / 2))),
        Vec3 (Fin (- (1 / 2))) (Fin (1 / 2)) (Fin (1 / 2)),
        Vec3 (Fin (1 / 2)) (Fin (1 / 2)) (Fin (1 / 2))),
       (Vec3 (Fin (- (1 / 2))) (Fin (1 / 2)) (Fin (- (1 / 2))),
        Vec3 (Fin (1 / 2)) (Fin (1 / 2)) (Fin (1 / 2)),
        Vec3 (Fin (1 / 2)) (Fin (1 / 2)) (Fin (- (1 / 2)))),
       (Vec3 (Fin (- (1 / 2))) (Fin (- (1 / 2))) (Fin (- (1 / 2))),
        Vec3 (Fin (- (1 / 2))) (Fin (- (1 / 2))) (Fin (1 / 2)),
        Vec3 (Fin (- (1 / 2))) (Fin (1 / 2)) (Fin (1 / 2))),
       (Vec3 (Fin (- (1 / 2))) (Fin (- (1 / 2))) (Fin (- (1 / 2))),
        Vec3 (Fin (- (1 / 2))) (Fin (1 / 2)) (Fin (1 / 2)),
        Vec3 (Fin (- (1 / 2))) (Fin (1 / 2)) (Fin (- (1 / 2)))),
       (Vec3 (Fin (1 / 2)) (Fin (- (1 / 2))) (Fin (- (1 / 2))),
        Vec3 (Fin (1 / 2)) (Fin (1 / 2)) (Fin (- (1 / 2))),
        Vec3 (Fin (1 / 2)) (Fin (1 / 2)) (Fin (1 / 2))),
       (Vec3 (Fin (1 / 2)) (Fin (- (1 / 2))) (Fin (- (1 / 2))),
        Vec3 (Fin (1 / 2)) (Fin (1 / 2)) (Fin (1 / 2)),
        Vec3 (Fin (1 / 2)) (Fin (- (1 / 2))) (Fin (1 / 2))) ]"
  unfolding meshTriangles_def cube_numTriangles
  by (simp add: triangleAt_def indexTriple_def uint32_def cubePoints_def cubeTriangles_def upt_rec)

lemma cube32_0:
  "contribution round32
     (Vec3 (Fin (- (1 / 2))) (Fin (- (1 / 2))) (Fin (- (1 / 2))),
      Vec3 (Fin (- (1 / 2))) (Fin (1 / 2)) (Fin (- (1 / 2))),
      Vec3 (Fin (1 / 2)) (Fin (1 / 2)) (Fin (- (1 / 2)))) =
     (Fin (11184811 / 134217728), Vec3 (Fin (- (1 / 8))) (Fin (1 / 8)) (Fin (- (3 / 8))),
      Mat3 (Vec3 (Fin (8947849 / 536870912)) (Fin 0) (Fin (- (8947849 / 2147483648))))
            (Vec3 (Fin 0) (Fin (8947849 / 536870912)) (Fin (8947849 / 2147483648)))
            (Vec3 (Fin (- (8947849 / 2147483648))) (Fin (8947849 / 2147483648)) (Fin (8947849 / 1073741824))))"
  by (simp add: round32_trace)

lemma cube32_1:
  "contribution round32
     (Vec3 (Fin (- (1 / 2))) (Fin (- (1 / 2))) (Fin (- (1 / 2))),
      Vec3 (Fin (1 / 2)) (Fin (1 / 2)) (Fin (- (1 / 2))),
      Vec3 (Fin (1 / 2)) (Fin (- (1 / 2))) (Fin (- (1 / 2)))) =
     (Fin (11184811 / 134217728), Vec3 (Fin (1 / 8)) (Fin (- (1 / 8))) (Fin (- (3 / 8))),
      Mat3 (Vec3 (Fin (8947849 / 536870912)) (Fin 0) (Fin (8947849 / 2147483648)))
            (Vec3 (Fin 0) (Fin (8947849 / 536870912)) (Fin (- (8947849 / 2147483648))))
            (Vec3 (Fin (8947849 / 2147483648)) (Fin (- (8947849 / 2147483648))) (Fin (8947849 / 1073741824))))"
  by (simp add: round32_trace)

lemma cube32_2:
  "contribution round32
     (Vec3 (Fin (- (1 / 2))) (Fin (- (1 / 2))) (Fin (1 / 2)),
      Vec3 (Fin (1 / 2)) (Fin (- (1 / 2))) (Fin (1 / 2)),
      Vec3 (Fin (1 / 2)) (Fin (1 / 2)) (Fin (1 / 2))) =
     (Fin (11184811 / 134217728), Vec3 (Fin (1 / 8)) (Fin (- (1 / 8))) (Fin (3 / 8)),
      Mat3 (Vec3 (Fin (8947849 / 536870912)) (Fin 0) (Fin (- (8947849 / 2147483648))))
            (Vec3 (Fin 0) (Fin (8947849 / 536870912)) (Fin (8947849 / 2147483648)))
            (Vec3 (Fin (- (8947849 / 2147483648))) (Fin (8947849 / 2147483648)) (Fin (8947849 / 1073741824))))"
  by (simp add: round32_trace)

lemma cube32_3:
  "contribution round32
     (Vec3 (Fin (- (1 / 2))) (Fin (- (1 / 2))) (Fin (1 / 2)),
      Vec3 (Fin (1 / 2)) (Fin (1 / 2)) (Fin (1 / 2)),
      Vec3 (Fin (- (1 / 2))) (Fin (1 / 2)) (Fin (1 / 2))) =
     (Fin (11184811 / 134217728), Vec3 (Fin (- (1 / 8))) (Fin (1 / 8)) (Fin (3 / 8)),
      Mat3 (Vec3 (Fin (8947849 / 536870912)) (Fin 0) (Fin (8947849 / 2147483648)))
            (Vec3 (Fin 0) (Fin (8947849 / 536870912)) (Fin (- (8947849 / 2147483648))))
            (Vec3 (Fin (8947849 / 2147483648)) (Fin (- (8947849 / 2147483648))) (Fin (8947849 / 1073741824))))"
  by (simp add: round32_trace)

lemma cube32_4:
  "contribution round32
     (Vec3 (Fin (- (1 / 2))) (Fin (- (1 / 2))) (Fin (- (1 / 2))),
      Vec3 (Fin (1 / 2)) (Fin (- (1 / 2))) (Fin (- (1 / 2))),
      Vec3 (Fin (1 / 2)) (Fin (- (1 / 2))) (Fin (1 / 2))) =
     (Fin (11184811 / 134217728), Vec3 (Fin (1 / 8)) (Fin (- (3 / 8))) (Fin (- (1 / 8))),
      Mat3 (Vec3 (Fin (8947849 / 536870912)) (Fin (8947849 / 2147483648)) (Fin 0))
            (Vec3 (Fin (8947849 / 2147483648)) (Fin (8947849 / 1073741824)) (Fin (- (8947849 / 2147483648))))
            (Vec3 (Fin 0) (Fin (- (8947849 / 2147483648))) (Fin (8947849 / 536870912))))"
  by (simp add: round32_trace)

lemma cube32_5:
  "contribution round32
     (Vec3 (Fin (- (1 / 2))) (Fin (- (1 / 2))) (Fin (- (1 / 2))),
      Vec3 (Fin (1 / 2)) (Fin (- (1 / 2))) (Fin (1 / 2)),
      Vec3 (Fin (- (1 / 2))) (Fin (- (1 / 2))) (Fin (1 / 2))) =
     (Fin (11184811 / 134217728), Vec3 (Fin (- (1 / 8))) (Fin (- (3 / 8))) (Fin (1 / 8)),
      Mat3 (Vec3 (Fin (8947849 / 536870912)) (Fin (- (8947849 / 2147483648))) (Fin 0))
            (Vec3 (Fin (- (8947849 / 2147483648))) (Fin (8947849 / 1073741824)) (Fin (8947849 / 2147483648)))
            (Vec3 (Fin 0) (Fin (8947849 / 2147483648)) (Fin (8947849 / 536870912))))"
  by (simp add: round32_trace)

lemma cube32_6:
  "contribution round32
     (Vec3 (Fin (- (1 / 2))) (Fin (1 / 2)) (Fin (- (1 / 2))),
      Vec3 (Fin (- (1 / 2))) (Fin (1 / 2)) (Fin (1 / 2)),
      Vec3 (Fin (1 / 2)) (Fin (1 / 2)) (Fin (1 / 2))) =
     (Fin (11184811 / 134217728), Vec3 (Fin (- (1 / 8))) (Fin (3 / 8)) (Fin (1 / 8)),
      Mat3 (Vec3 (Fin (8947849 / 536870912)) (Fin (8947849 / 2147483648)) (Fin 0))
            (Vec3 (Fin (8947849 / 2147483648)) (Fin (8947849 / 1073741824)) (Fin (- (8947849 / 2147483648))))
            (Vec3 (Fin 0) (Fin (- (8947849 / 2147483648))) (Fin (8947849 / 536870912))))"
  by (simp add: round32_trace)

lemma cube32_7:
  "contribution round32
     (Vec3 (Fin (- (1 / 2))) (Fin (1 / 2)) (Fin (- (1 / 2))),
      Vec3 (Fin (1 / 2)) (Fin (1 / 2)) (Fin (1 / 2)),
      Vec3 (Fin (1 / 2)) (Fin (1 / 2)) (Fin (- (1 / 2)))) =
     (Fin (11184811 / 134217728), Vec3 (Fin (1 / 8)) (Fin (3 / 8)) (Fin (- (1 / 8))),
      Mat3 (Vec3 (Fin (8947849 / 536870912)) (Fin (- (8947849 / 2147483648))) (Fin 0))
            (Vec3 (Fin (- (8947849 / 2147483648))) (Fin (8947849 / 1073741824)) (Fin (8947849 / 2147483648)))
            (Vec3 (Fin 0) (Fin (8947849 / 2147483648)) (Fin (8947849 / 536870912))))"
  by (simp add: round32_trace)

lemma cube32_8:
  "contribution round32
     (Vec3 (Fin (- (1 / 2))) (Fin (- (1 / 2))) (Fin (- (1 / 2))),
      Vec3 (Fin (- (1 / 2))) (Fin (- (1 / 2))) (Fin (1 / 2)),
      Vec3 (Fin (- (1 / 2))) (Fin (1 / 2)) (Fin (1 / 2))) =
     (Fin (11184811 / 134217728), Vec3 (Fin (- (3 / 8))) (Fin (- (1 / 8))) (Fin (1 / 8)),
      Mat3 (Vec3 (Fin (8947849 / 1073741824)) (Fin (- (8947849 / 2147483648))) (Fin (8947849 / 2147483648)))
            (Vec3 (Fin (- (8947849 / 2147483648))) (Fin (8947849 / 536870912)) (Fin 0))
            (Vec3 (Fin (8947849 / 2147483648)) (Fin 0) (Fin (8947849 / 536870912))))"
  by (simp add: round32_trace)

lemma cube32_9:
  "contribution round32
     (Vec3 (Fin (- (1 / 2))) (Fin (- (1 / 2))) (Fin (- (1 / 2))),
      Vec3 (Fin (- (1 / 2))) (Fin (1 / 2)) (Fin (1 / 2)),
      Vec3 (Fin (- (1 / 2))) (Fin (1 / 2)) (Fin (- (1 / 2)))) =
     (Fin (11184811 / 134217728), Vec3 (Fin (- (3 / 8))) (Fin (1 / 8)) (Fin (- (1 / 8))),
      Mat3 (Vec3 (Fin (8947849 / 1073741824)) (Fin (8947849 / 2147483648)) (Fin (- (8947849 / 2147483648))))
            (Vec3 (Fin (8947849 / 2147483648)) (Fin (8947849 / 536870912)) (Fin 0))
            (Vec3 (Fin (- (8947849 / 2147483648))) (Fin 0) (Fin (8947849 / 536870912))))"
  by (simp add: round32_trace)

lemma cube32_10:
  "contribution round32
     (Vec3 (Fin (1 / 2)) (Fin (- (1 / 2))) (Fin (- (1 / 2))),
      Vec3 (Fin (1 / 2)) (Fin (1 / 2)) (Fin (- (1 / 2))),
      Vec3 (Fin (1 / 2)) (Fin (1 / 2)) (Fin (1 / 2))) =
     (Fin (11184811 / 134217728), Vec3 (Fin (3 / 8)) (Fin (1 / 8)) (Fin (- (1 / 8))),
      Mat3 (Vec3 (Fin (8947849 / 1073741824)) (Fin (- (8947849 / 2147483648))) (Fin (8947849 / 2147483648)))
            (Vec3 (Fin (- (8947849 / 2147483648))) (Fin (8947849 / 536870912)) (Fin 0))
            (Vec3 (Fin (8947849 / 2147483648)) (Fin 0) (Fin (8947849 / 536870912))))"
  by (simp add: round32_trace)

lemma cube32_11:
  "contribution round32
     (Vec3 (Fin (1 / 2)) (Fin (- (1 / 2))) (Fin (- (1 / 2))),
      Vec3 (Fin (1 / 2)) (Fin (1 / 2)) (Fin (1 / 2)),
      Vec3 (Fin (1 / 2)) (Fin (- (1 / 2))) (Fin (1 / 2))) =
     (Fin (11184811 / 134217728), Vec3 (Fin (3 / 8)) (Fin (- (1 / 8))) (Fin (1 / 8)),
      Mat3 (Vec3 (Fin (8947849 / 1073741824)) (Fin (8947849 / 2147483648)) (Fin (- (8947849 / 2147483648))))
            (Vec3 (Fin (8947849 / 2147483648)) (Fin (8947849 / 536870912)) (Fin 0))
            (Vec3 (Fin (- (8947849 / 2147483648))) (Fin 0) (Fin (8947849 / 536870912))))"
  by (simp add: round32_trace)

lemma cube32_loop:
  "foldl (accumulate round32) (initialState round32)
     [ (Vec3 (Fin (- (1 / 2))) (Fin (- (1 / 2))) (Fin (- (1 / 2))),
        Vec3 (Fin (- (1 / 2))) (Fin (1 / 2)) (Fin (- (1 / 2))),
        Vec3 (Fin (1 / 2)) (Fin (1 / 2)) (Fin (- (1 / 2)))),
       (Vec3 (Fin (- (1 / 2))) (Fin (- (1 / 2))) (Fin (- (1 / 2))),
        Vec3 (Fin (1 / 2)) (Fin (1 / 2)) (Fin (- (1 / 2))),
        Vec3 (Fin (1 / 2)) (Fin (- (1 / 2))) (Fin (- (1 / 2)))),
       (Vec3 (Fin (- (1 / 2))) (Fin (- (1 / 2))) (Fin (1 / 2)),
        Vec3 (Fin (1 / 2)) (Fin (- (1 / 2))) (Fin (1 / 2)),
        Vec3 (Fin (1 / 2)) (Fin (1 / 2)) (Fin (1 / 2))),
       (Vec3 (Fin (- (1 / 2))) (Fin (- (1 / 2))) (Fin (1 / 2)),
        Vec3 (Fin (1 / 2)) (Fin (1 / 2)) (Fin (1 / 2)),
        Vec3 (Fin (- (1 / 2))) (Fin (1 / 2)) (Fin (1 / 2))),
       (Vec3 (Fin (- (1 / 2))) (Fin (- (1 / 2))) (Fin (- (1 / 2))),
        Vec3 (Fin (1 / 2)) (Fin (- (1 / 2))) (Fin (- (1 / 2))),
        Vec3 (Fin (1 / 2)) (Fin (- (1 / 2))) (Fin (1 / 2))),
       (Vec3 (Fin (- (1 / 2))) (Fin (- (1 / 2))) (Fin (- (1 / 2))),
        Vec3 (Fin (1 / 2)) (Fin (- (1 / 2))) (Fin (1 / 2)),
        Vec3 (Fin (- (1 / 2))) (Fin (- (1 / 2))) (Fin (1 / 2))),
       (Vec3 (Fin (- (1 / 2))) (Fin (1 / 2)) (Fin (- (1 / 2))),
        Vec3 (Fin (- (1 / 2))) (Fin (1 / 2)) (Fin (1 / 2)),
        Vec3 (Fin (1 / 2)) (Fin (1 / 2)) (Fin (1 / 2))),
       (Vec3 (Fin (- (1 / 2))) (Fin (1 / 2)) (Fin (- (1 / 2))),
        Vec3 (Fin (1 / 2)) (Fin (1 / 2)) (Fin (1 / 2)),
        Vec3 (Fin (1 / 2)) (Fin (1 / 2)) (Fin (- (1 / 2)))),
       (Vec3 (Fin (- (1 / 2))) (Fin (- (1 / 2))) (Fin (- (1 / 2))),
        Vec3 (Fin (- (1 / 2))) (Fin (- (1 / 2))) (Fin (1 / 2)),
        Vec3 (Fin (- (1 / 2))) (Fin (1 / 2)) (Fin (1 / 2))),
       (Vec3 (Fin (- (1 / 2))) (Fin (- (1 / 2))) (Fin (- (1 / 2))),
        Vec3 (Fin (- (1 / 2))) (Fin (1 / 2)) (Fin (1 / 2)),
        Vec3 (Fin (- (1 / 2))) (Fin (1 / 2)) (Fin (- (1 / 2)))),
       (Vec3 (Fin (1 / 2)) (Fin (- (1 / 2))) (Fin (- (1 / 2))),
        Vec3 (Fin (1 / 2)) (Fin (1 / 2)) (Fin (- (1 / 2))),
        Vec3 (Fin (1 / 2)) (Fin (1 / 2)) (Fin (1 / 2))),
       (Vec3 (Fin (1 / 2)) (Fin (- (1 / 2))) (Fin (- (1 / 2))),
        Vec3 (Fin (1 / 2)) (Fin (1 / 2)) (Fin (1 / 2)),
        Vec3 (Fin (1 / 2)) (Fin (- (1 / 2))) (Fin (1 / 2))) ] =
     \<lparr> m_volume = Fin (8388607 / 8388608),
       weightedCenter = Vec3 (Fin 0) (Fin 0) (Fin 0),
       m_inertia = Mat3 (Vec3 (Fin (11184813 / 67108864)) (Fin 0) (Fin 0))
            (Vec3 (Fin 0) (Fin (11184811 / 67108864)) (Fin 0))
            (Vec3 (Fin 0) (Fin 0) (Fin (11184811 / 67108864))),
       tetraInertia = Mat3 (Vec3 (Fin (8947849 / 1073741824)) (Fin (8947849 / 2147483648)) (Fin (- (8947849 / 2147483648))))
            (Vec3 (Fin (8947849 / 2147483648)) (Fin (8947849 / 536870912)) (Fin 0))
            (Vec3 (Fin (- (8947849 / 2147483648))) (Fin 0) (Fin (8947849 / 536870912))) \<rparr>"
  by (simp add: accumulate_def initialState_def vzero_def mzero_def round32_eval
      cube32_0 cube32_1 cube32_2 cube32_3 cube32_4 cube32_5
      cube32_6 cube32_7 cube32_8 cube32_9 cube32_10 cube32_11
      del: contribution.simps)

lemma cube32_finish:
  "finish round32
     \<lparr> m_volume = Fin (8388607 / 8388608),
       weightedCenter = Vec3 (Fin 0) (Fin 0) (Fin 0),
       m_inertia = Mat3 (Vec3 (Fin (11184813 / 67108864)) (Fin 0) (Fin 0))
            (Vec3 (Fin 0) (Fin (11184811 / 67108864)) (Fin 0))
            (Vec3 (Fin 0) (Fin 0) (Fin (11184811 / 67108864))),
       tetraInertia = Mat3 (Vec3 (Fin (8947849 / 1073741824)) (Fin (8947849 / 2147483648)) (Fin (- (8947849 / 2147483648))))
            (Vec3 (Fin (8947849 / 2147483648)) (Fin (8947849 / 536870912)) (Fin 0))
            (Vec3 (Fin (- (8947849 / 2147483648))) (Fin 0) (Fin (8947849 / 536870912))) \<rparr> =
     \<lparr> volume = Fin (8388607 / 8388608),
       centerOfMass = Vec3 (Fin 0) (Fin 0) (Fin 0),
       inertia = Mat3 (Vec3 (Fin (11184813 / 67108864)) (Fin 0) (Fin 0))
            (Vec3 (Fin 0) (Fin (11184811 / 67108864)) (Fin 0))
            (Vec3 (Fin 0) (Fin 0) (Fin (11184811 / 67108864))) \<rparr>"
  by (simp add: finish_eval finishAt_def applyInverseParallelAxisTheorem_explicit unshiftedIf_def
      length2_def fsub_def round32_eval)

lemma cube32_result:
  "computeMassProperties round32 cubePoints cubeTriangles =
     Inr \<lparr> volume = Fin (8388607 / 8388608),
       centerOfMass = Vec3 (Fin 0) (Fin 0) (Fin 0),
       inertia = Mat3 (Vec3 (Fin (11184813 / 67108864)) (Fin 0) (Fin 0))
            (Vec3 (Fin 0) (Fin (11184811 / 67108864)) (Fin 0))
            (Vec3 (Fin 0) (Fin 0) (Fin (11184811 / 67108864))) \<rparr>"
  unfolding computeMassProperties_explicit meshResult_def cube32_meshTriangles cube32_loop cube32_finish
  using cube_indicesOK by (rule if_P)



subsection \<open>The unit cube moved by (1, 2, 3), in binary32\<close>

















subsection \<open>A mesh that cancels itself, in binary32\<close>

lemma cancel_numTriangles: "numTriangles [0, 1, 2, 0, 2, 1] = 2"
  by (simp add: numTriangles_def uint32_def)

lemma cancel_indicesOK:
  "\<forall>i<numTriangles [0, 1, 2, 0, 2, 1]. indicesOK cornerPoints [0, 1, 2, 0, 2, 1] i"
  unfolding cancel_numTriangles all_less_upt
  by (simp add: upt_rec indicesOK_def numPoints_def uint32_def cornerPoints_def)

lemma cancel32_meshTriangles:
  "meshTriangles cornerPoints [0, 1, 2, 0, 2, 1] =
     [ (Vec3 (Fin 3) (Fin 0) (Fin 0),
        Vec3 (Fin 0) (Fin 3) (Fin 0),
        Vec3 (Fin 0) (Fin 0) (Fin 3)),
       (Vec3 (Fin 3) (Fin 0) (Fin 0),
        Vec3 (Fin 0) (Fin 0) (Fin 3),
        Vec3 (Fin 0) (Fin 3) (Fin 0)) ]"
  unfolding meshTriangles_def cancel_numTriangles
  by (simp add: triangleAt_def indexTriple_def uint32_def cornerPoints_def  upt_rec)

lemma cancel32_0:
  "contribution round32
     (Vec3 (Fin 3) (Fin 0) (Fin 0),
      Vec3 (Fin 0) (Fin 3) (Fin 0),
      Vec3 (Fin 0) (Fin 0) (Fin 3)) =
     (Fin (9 / 2), Vec3 (Fin (3 / 4)) (Fin (3 / 4)) (Fin (3 / 4)),
      Mat3 (Vec3 (Fin (4246733 / 524288)) (Fin (- (4246733 / 2097152))) (Fin (- (4246733 / 2097152))))
            (Vec3 (Fin (- (4246733 / 2097152))) (Fin (4246733 / 524288)) (Fin (- (4246733 / 2097152))))
            (Vec3 (Fin (- (4246733 / 2097152))) (Fin (- (4246733 / 2097152))) (Fin (4246733 / 524288))))"
  by (simp add: round32_trace)

lemma cancel32_1:
  "contribution round32
     (Vec3 (Fin 3) (Fin 0) (Fin 0),
      Vec3 (Fin 0) (Fin 0) (Fin 3),
      Vec3 (Fin 0) (Fin 3) (Fin 0)) =
     (Fin (- (9 / 2)), Vec3 (Fin (3 / 4)) (Fin (3 / 4)) (Fin (3 / 4)),
      Mat3 (Vec3 (Fin (- (4246733 / 524288))) (Fin (4246733 / 2097152)) (Fin (4246733 / 2097152)))
            (Vec3 (Fin (4246733 / 2097152)) (Fin (- (4246733 / 524288))) (Fin (4246733 / 2097152)))
            (Vec3 (Fin (4246733 / 2097152)) (Fin (4246733 / 2097152)) (Fin (- (4246733 / 524288)))))"
  by (simp add: round32_trace)

lemma cancel32_loop:
  "foldl (accumulate round32) (initialState round32)
     [ (Vec3 (Fin 3) (Fin 0) (Fin 0),
        Vec3 (Fin 0) (Fin 3) (Fin 0),
        Vec3 (Fin 0) (Fin 0) (Fin 3)),
       (Vec3 (Fin 3) (Fin 0) (Fin 0),
        Vec3 (Fin 0) (Fin 0) (Fin 3),
        Vec3 (Fin 0) (Fin 3) (Fin 0)) ] =
     \<lparr> m_volume = Fin 0,
       weightedCenter = Vec3 (Fin 0) (Fin 0) (Fin 0),
       m_inertia = Mat3 (Vec3 (Fin 0) (Fin 0) (Fin 0))
            (Vec3 (Fin 0) (Fin 0) (Fin 0))
            (Vec3 (Fin 0) (Fin 0) (Fin 0)),
       tetraInertia = Mat3 (Vec3 (Fin (- (4246733 / 524288))) (Fin (4246733 / 2097152)) (Fin (4246733 / 2097152)))
            (Vec3 (Fin (4246733 / 2097152)) (Fin (- (4246733 / 524288))) (Fin (4246733 / 2097152)))
            (Vec3 (Fin (4246733 / 2097152)) (Fin (4246733 / 2097152)) (Fin (- (4246733 / 524288)))) \<rparr>"
  by (simp add: accumulate_def initialState_def vzero_def mzero_def round32_eval
      cancel32_0 cancel32_1
      del: contribution.simps)

lemma cancel32_finish:
  "finish round32
     \<lparr> m_volume = Fin 0,
       weightedCenter = Vec3 (Fin 0) (Fin 0) (Fin 0),
       m_inertia = Mat3 (Vec3 (Fin 0) (Fin 0) (Fin 0))
            (Vec3 (Fin 0) (Fin 0) (Fin 0))
            (Vec3 (Fin 0) (Fin 0) (Fin 0)),
       tetraInertia = Mat3 (Vec3 (Fin (- (4246733 / 524288))) (Fin (4246733 / 2097152)) (Fin (4246733 / 2097152)))
            (Vec3 (Fin (4246733 / 2097152)) (Fin (- (4246733 / 524288))) (Fin (4246733 / 2097152)))
            (Vec3 (Fin (4246733 / 2097152)) (Fin (4246733 / 2097152)) (Fin (- (4246733 / 524288)))) \<rparr> =
     \<lparr> volume = Fin 0,
       centerOfMass = Vec3 (NaN) (NaN) (NaN),
       inertia = Mat3 (Vec3 (Fin 0) (Fin 0) (Fin 0))
            (Vec3 (Fin 0) (Fin 0) (Fin 0))
            (Vec3 (Fin 0) (Fin 0) (Fin 0)) \<rparr>"
  by (simp add: finish_eval finishAt_def applyInverseParallelAxisTheorem_explicit unshiftedIf_def
      length2_def fsub_def round32_eval)

lemma cancel32_result:
  "computeMassProperties round32 cornerPoints [0, 1, 2, 0, 2, 1] =
     Inr \<lparr> volume = Fin 0,
       centerOfMass = Vec3 (NaN) (NaN) (NaN),
       inertia = Mat3 (Vec3 (Fin 0) (Fin 0) (Fin 0))
            (Vec3 (Fin 0) (Fin 0) (Fin 0))
            (Vec3 (Fin 0) (Fin 0) (Fin 0)) \<rparr>"
  unfolding computeMassProperties_explicit meshResult_def cancel32_meshTriangles cancel32_loop cancel32_finish
  using cancel_indicesOK by (rule if_P)

subsection \<open>Single operations in binary32\<close>

lemma accumulate_weightedCenter:
  "weightedCenter (accumulate r st (q1, q2, q3)) =
     vadd r (weightedCenter st)
       (vscale r (computeTetrahedronVolume r (Vec3 (r 0) (r 0) (r 0)) q1 q2 q3)
          (tetraCenter r q1 q2 q3))"
  by (simp add: accumulate_def contributionAt_def)

lemma corner_triangleAt:
  "triangleAt cornerPoints [0, 1, 2] 0 =
     (Vec3 (Fin 3) (Fin 0) (Fin 0), Vec3 (Fin 0) (Fin 3) (Fin 0), Vec3 (Fin 0) (Fin 0) (Fin 3))"
  by (simp add: triangleAt_def indexTriple_def uint32_def cornerPoints_def)

lemma corner_indicesOK: "indicesOK cornerPoints [0, 1, 2] 0"
  by (simp add: indicesOK_def numPoints_def uint32_def cornerPoints_def)

lemma corner32_volume:
  "computeTetrahedronVolume round32 (Vec3 (Fin 0) (Fin 0) (Fin 0)) (Vec3 (Fin 3) (Fin 0) (Fin 0))
     (Vec3 (Fin 0) (Fin 3) (Fin 0)) (Vec3 (Fin 0) (Fin 0) (Fin 3)) = Fin (9 / 2)"
  by (simp add: computeTetrahedronVolume_def fsub_def round32_eval)

lemma corner32_center:
  "tetraCenter round32 (Vec3 (Fin 3) (Fin 0) (Fin 0)) (Vec3 (Fin 0) (Fin 3) (Fin 0))
     (Vec3 (Fin 0) (Fin 0) (Fin 3)) = Vec3 (Fin (3 / 4)) (Fin (3 / 4)) (Fin (3 / 4))"
  by (simp add: tetraCenter_def round32_eval)

lemma empty32_result:
  "computeMassProperties round32 [] [] =
     Inr \<lparr> volume = Fin 0, centerOfMass = Vec3 NaN NaN NaN,
           inertia = Mat3 (Vec3 (Fin 0) (Fin 0) (Fin 0)) (Vec3 (Fin 0) (Fin 0) (Fin 0))
                          (Vec3 (Fin 0) (Fin 0) (Fin 0)) \<rparr>"
  by (simp add: computeMassProperties_def numTriangles_def uint32_def initialState_def
      finish_eval finishAt_def applyInverseParallelAxisTheorem_explicit unshiftedIf_def
      length2_def vzero_def mzero_def round32_eval)


section \<open>The claims\<close>

text \<open>
  C1, as stated: for the unit cube with the eight vertices (+-1/2, +-1/2, +-1/2) and
  twelve outward-wound triangles, \<^verbatim>\<open>computeMassProperties\<close> gives volume 1.0, centre of
  mass (0, 0, 0) and inertia diag(1/6, 1/6, 1/6). In binary32 it does not: the volume it
  returns is 8388607/8388608 = 0.99999988, and the diagonal of the inertia is 0.16666670,
  0.16666667, 0.16666667.
\<close>

theorem unit_cube_binary32:
  "computeMassProperties round32 cubePoints cubeTriangles =
     Inr \<lparr> volume = Fin (8388607 / 8388608),
           centerOfMass = Vec3 (Fin 0) (Fin 0) (Fin 0),
           inertia = Mat3 (Vec3 (Fin (11184813 / 67108864)) (Fin 0) (Fin 0))
                          (Vec3 (Fin 0) (Fin (11184811 / 67108864)) (Fin 0))
                          (Vec3 (Fin 0) (Fin 0) (Fin (11184811 / 67108864))) \<rparr>
   \<and> computeMassProperties round32 cubePoints cubeTriangles \<noteq>
     Inr \<lparr> volume = Fin 1, centerOfMass = Vec3 (Fin 0) (Fin 0) (Fin 0),
           inertia = Mat3 (Vec3 (Fin (1 / 6)) (Fin 0) (Fin 0))
                          (Vec3 (Fin 0) (Fin (1 / 6)) (Fin 0))
                          (Vec3 (Fin 0) (Fin 0) (Fin (1 / 6))) \<rparr>"
  by (simp add: cube32_result)

text \<open>
  C1, amended: the three values are right up to rounding. When no operation rounds, the
  function returns exactly volume 1, centre (0, 0, 0) and inertia diag(1/6, 1/6, 1/6);
  in binary32 it returns finite values, each within 1/1000000 of these. The mesh
  \<open>cubeTriangles\<close> is closed and wound outward (lemmas \<open>cube_closed\<close> and \<open>cube_outward\<close>).
\<close>

theorem unit_cube_mass_properties:
  "computeMassProperties exact cubePoints cubeTriangles =
     Inr \<lparr> volume = Fin 1, centerOfMass = Vec3 (Fin 0) (Fin 0) (Fin 0),
           inertia = Mat3 (Vec3 (Fin (1 / 6)) (Fin 0) (Fin 0))
                          (Vec3 (Fin 0) (Fin (1 / 6)) (Fin 0))
                          (Vec3 (Fin 0) (Fin 0) (Fin (1 / 6))) \<rparr>
   \<and> (\<exists>res. computeMassProperties round32 cubePoints cubeTriangles = Inr res
          \<and> near (volume res) 1
          \<and> nearVec (centerOfMass res) (RVec 0 0 0)
          \<and> nearMat (inertia res) (RMat (RVec (1 / 6) 0 0) (RVec 0 (1 / 6) 0)
                                          (RVec 0 0 (1 / 6))))"
  by (simp add: cube_exact_result cube32_result)

text \<open>
  C2, as stated: the centre of a tetrahedron used by the loop is the sum of the three
  triangle vertices divided by 3. It is not: for the triangle (3,0,0), (0,3,0), (0,0,3),
  whose vertices average to (1, 1, 1), the code's centre is (3/4, 3/4, 3/4), and the loop
  adds volume * centre = (27/8, 27/8, 27/8) to \<^verbatim>\<open>weightedCenter\<close>, not (9/2, 9/2, 9/2).
  These numbers are binary32 numbers, and no operation that leads to them rounds.
\<close>

theorem centroid_is_not_the_third:
  "tetraCenter round32 (Vec3 (Fin 3) (Fin 0) (Fin 0)) (Vec3 (Fin 0) (Fin 3) (Fin 0))
       (Vec3 (Fin 0) (Fin 0) (Fin 3)) = Vec3 (Fin (3 / 4)) (Fin (3 / 4)) (Fin (3 / 4))
   \<and> finVec (rvscale (1 / 3) (rvadd (rvadd (RVec 3 0 0) (RVec 0 3 0)) (RVec 0 0 3)))
       = Vec3 (Fin 1) (Fin 1) (Fin 1)
   \<and> map_sum id weightedCenter (loopBody round32 cornerPoints [0, 1, 2] 0 (initialState round32))
       = Inr (Vec3 (Fin (27 / 8)) (Fin (27 / 8)) (Fin (27 / 8)))
   \<and> vscale round32
        (computeTetrahedronVolume round32 (Vec3 (Fin 0) (Fin 0) (Fin 0))
           (Vec3 (Fin 3) (Fin 0) (Fin 0)) (Vec3 (Fin 0) (Fin 3) (Fin 0))
           (Vec3 (Fin 0) (Fin 0) (Fin 3)))
        (Vec3 (Fin 1) (Fin 1) (Fin 1)) = Vec3 (Fin (9 / 2)) (Fin (9 / 2)) (Fin (9 / 2))"
proof (intro conjI)
  show "tetraCenter round32 (Vec3 (Fin 3) (Fin 0) (Fin 0)) (Vec3 (Fin 0) (Fin 3) (Fin 0))
       (Vec3 (Fin 0) (Fin 0) (Fin 3)) = Vec3 (Fin (3 / 4)) (Fin (3 / 4)) (Fin (3 / 4))"
    by (rule corner32_center)
  show "finVec (rvscale (1 / 3) (rvadd (rvadd (RVec 3 0 0) (RVec 0 3 0)) (RVec 0 0 3)))
       = Vec3 (Fin 1) (Fin 1) (Fin 1)"
    by simp
  have z: "Vec3 (round32 0) (round32 0) (round32 0) = Vec3 (Fin 0) (Fin 0) (Fin 0)"
    by (simp add: round32_def)
  show "map_sum id weightedCenter
          (loopBody round32 cornerPoints [0, 1, 2] 0 (initialState round32))
       = Inr (Vec3 (Fin (27 / 8)) (Fin (27 / 8)) (Fin (27 / 8)))"
    unfolding loopBody_explicit corner_triangleAt
    using corner_indicesOK
    by (simp add: accumulate_weightedCenter z corner32_volume corner32_center initialState_def
        vzero_def round32_eval)
  show "vscale round32
        (computeTetrahedronVolume round32 (Vec3 (Fin 0) (Fin 0) (Fin 0))
           (Vec3 (Fin 3) (Fin 0) (Fin 0)) (Vec3 (Fin 0) (Fin 3) (Fin 0))
           (Vec3 (Fin 0) (Fin 0) (Fin 3)))
        (Vec3 (Fin 1) (Fin 1) (Fin 1)) = Vec3 (Fin (9 / 2)) (Fin (9 / 2)) (Fin (9 / 2))"
    unfolding corner32_volume by (simp add: round32_eval)
qed

text \<open>
  C2, amended: for every processed triangle (i0, i1, i2) the centre used for shifting the
  vertices, for the parallel-axis shift and for the accumulation of \<^verbatim>\<open>weightedCenter\<close> is
  one quarter of p[i0] + p[i1] + p[i2], the mean of the four vertices of the tetrahedron
  whose apex is the origin. This holds for every rounding of the operations.
\<close>

theorem loopBody_centroid:
  assumes "loopBody r points tris i st = Inr st'"
    and "q0 = Vec3 (r 0) (r 0) (r 0)"
    and "q1 = points ! (tris ! uint32 (3 * i))"
    and "q2 = points ! (tris ! uint32 (uint32 (3 * i) + 1))"
    and "q3 = points ! (tris ! uint32 (uint32 (3 * i) + 2))"
    and "c = vscale r (r (1 / 4)) (vadd r (vadd r q1 q2) q3)"
    and "V = computeTetrahedronVolume r q0 q1 q2 q3"
  shows "weightedCenter st' = vadd r (weightedCenter st) (vscale r V c)
       \<and> tetraInertia st' =
           applyParallelAxisTheorem r
             (computeTetrahedronInertia r V (vsub r q0 c) (vsub r q1 c) (vsub r q2 c)
                (vsub r q3 c) (tetraInertia st)) c V
       \<and> m_inertia st' = madd r (m_inertia st) (tetraInertia st')"
  using assms(1) unfolding assms(2-7)
  by (auto simp add: loopBody_def Let_def tetraCenter_def split: if_splits)

theorem loopBody_centroid_witness:
  "\<exists>st'. loopBody round32 cornerPoints [0, 1, 2] 0 (initialState round32) = Inr st'
     \<and> weightedCenter st' = vadd round32 (weightedCenter (initialState round32))
          (vscale round32 (Fin (9 / 2)) (Vec3 (Fin (3 / 4)) (Fin (3 / 4)) (Fin (3 / 4))))
     \<and> m_inertia st' = madd round32 (m_inertia (initialState round32)) (tetraInertia st')"
proof -
  obtain st' where l: "loopBody round32 cornerPoints [0, 1, 2] 0 (initialState round32) = Inr st'"
    using corner_indicesOK by (simp add: loopBody_explicit)
  have q0: "Vec3 (Fin 0) (Fin 0) (Fin 0) = Vec3 (round32 0) (round32 0) (round32 0)"
    by (simp add: round32_def)
  have q1: "Vec3 (Fin 3) (Fin 0) (Fin 0) = cornerPoints ! ([0, 1, 2] ! uint32 (3 * 0))"
    by (simp add: cornerPoints_def uint32_def)
  have q2: "Vec3 (Fin 0) (Fin 3) (Fin 0) = cornerPoints ! ([0, 1, 2] ! uint32 (uint32 (3 * 0) + 1))"
    by (simp add: cornerPoints_def uint32_def)
  have q3: "Vec3 (Fin 0) (Fin 0) (Fin 3) = cornerPoints ! ([0, 1, 2] ! uint32 (uint32 (3 * 0) + 2))"
    by (simp add: cornerPoints_def uint32_def)
  have c: "Vec3 (Fin (3 / 4)) (Fin (3 / 4)) (Fin (3 / 4)) =
      vscale round32 (round32 (1 / 4))
        (vadd round32 (vadd round32 (Vec3 (Fin 3) (Fin 0) (Fin 0)) (Vec3 (Fin 0) (Fin 3) (Fin 0)))
           (Vec3 (Fin 0) (Fin 0) (Fin 3)))"
    using corner32_center by (simp only: tetraCenter_def)
  have V: "Fin (9 / 2) =
      computeTetrahedronVolume round32 (Vec3 (Fin 0) (Fin 0) (Fin 0))
        (Vec3 (Fin 3) (Fin 0) (Fin 0)) (Vec3 (Fin 0) (Fin 3) (Fin 0)) (Vec3 (Fin 0) (Fin 0) (Fin 3))"
    by (simp only: corner32_volume)
  from loopBody_centroid [OF l q0 q1 q2 q3 c V] l show ?thesis by blast
qed

text \<open>
  C3, as stated: a total volume of zero is reported as an error or warning. It is not:
  for the empty mesh, and for a mesh of one triangle taken twice with opposite windings,
  the function returns normally, with volume 0 and a centre of mass of three NaN.
\<close>

theorem degenerate_mesh_returns_nonfinite:
  "computeMassProperties round32 [] [] =
     Inr \<lparr> volume = Fin 0, centerOfMass = Vec3 NaN NaN NaN,
           inertia = Mat3 (Vec3 (Fin 0) (Fin 0) (Fin 0)) (Vec3 (Fin 0) (Fin 0) (Fin 0))
                          (Vec3 (Fin 0) (Fin 0) (Fin 0)) \<rparr>
   \<and> computeMassProperties round32 cornerPoints [0, 1, 2, 0, 2, 1] =
     Inr \<lparr> volume = Fin 0, centerOfMass = Vec3 NaN NaN NaN,
           inertia = Mat3 (Vec3 (Fin 0) (Fin 0) (Fin 0)) (Vec3 (Fin 0) (Fin 0) (Fin 0))
                          (Vec3 (Fin 0) (Fin 0) (Fin 0)) \<rparr>"
  by (simp only: empty32_result cancel32_result simp_thms)

text \<open>
  C3, amended: nothing is signalled on account of the total volume. Whether
  \<^verbatim>\<open>computeMassProperties\<close> returns or aborts is decided by the vertex indices of the
  processed triangles alone: it returns exactly when all of them are in range, whatever
  the accumulated volume and whatever the rounding.
\<close>

theorem zero_volume_not_signalled:
  "(\<exists>res. computeMassProperties r points tris = Inr res)
     \<longleftrightarrow> (\<forall>i<numTriangles tris. indicesOK points tris i)"
  by (simp add: computeMassProperties_explicit)

theorem zero_volume_not_signalled_witness:
  "(\<exists>res. computeMassProperties round32 [] [] = Inr res \<and> volume res = Fin 0
          \<and> centerOfMass res = Vec3 NaN NaN NaN)
   \<and> list_all (indicesOK ([] :: btVector3 list) []) [0 ..< numTriangles []]
   \<and> computeMassProperties round32 [] [0, 0, 0] = Inl AssertionFailed
   \<and> \<not> list_all (indicesOK ([] :: btVector3 list) [0, 0, 0]) [0 ..< numTriangles [0, 0, 0]]"
proof -
  have n: "numTriangles [0, 0, 0] = 1"
    by (simp add: numTriangles_def uint32_def)
  have bad: "\<not> list_all (indicesOK ([] :: btVector3 list) [0, 0, 0]) [0 ..< numTriangles [0, 0, 0]]"
    unfolding n by (simp add: indicesOK_def numPoints_def uint32_def)
  then have b: "computeMassProperties round32 [] [0, 0, 0] = Inl AssertionFailed"
    by (simp add: computeMassProperties_explicit all_less_upt)
  from zero_volume_not_signalled [of round32 "[]" "[]"]
    zero_volume_not_signalled [of round32 "[]" "[0, 0, 0]"] empty32_result b bad
  show ?thesis by (simp add: all_less_upt)
qed

text \<open>
  C4, as stated: an index list whose length is not a multiple of 3 makes the function
  fail. It does not: the cube's 36 indices followed by one more index give the cube's
  result.
\<close>

theorem trailing_index_not_rejected:
  "length (cubeTriangles @ [0]) mod 3 \<noteq> 0
   \<and> computeMassProperties round32 cubePoints (cubeTriangles @ [0]) =
     Inr \<lparr> volume = Fin (8388607 / 8388608),
           centerOfMass = Vec3 (Fin 0) (Fin 0) (Fin 0),
           inertia = Mat3 (Vec3 (Fin (11184813 / 67108864)) (Fin 0) (Fin 0))
                          (Vec3 (Fin 0) (Fin (11184811 / 67108864)) (Fin 0))
                          (Vec3 (Fin 0) (Fin 0) (Fin (11184811 / 67108864))) \<rparr>
   \<and> computeMassProperties round32 cubePoints (cubeTriangles @ [0]) =
     computeMassProperties round32 cubePoints cubeTriangles"
proof -
  have l: "length (cubeTriangles @ [0]) mod 3 \<noteq> 0"
    by (simp add: cubeTriangles_def)
  have "take (3 * (length (cubeTriangles @ [0]) div 3)) (cubeTriangles @ [0]) = cubeTriangles"
    by (simp add: cubeTriangles_def)
  with computeMassProperties_take [of round32 cubePoints "cubeTriangles @ [0]"]
  have e: "computeMassProperties round32 cubePoints (cubeTriangles @ [0]) =
      computeMassProperties round32 cubePoints cubeTriangles"
    by simp
  from l e cube32_result show ?thesis by (simp only: simp_thms)
qed

text \<open>
  C4, amended: the length of the index list is not checked. For a list whose length is
  not a multiple of 3 the function returns a result whenever every index is less than
  the number of points, and when it fails, an index among the first 3 * (n div 3) is out
  of range.
\<close>

theorem bad_length_not_checked:
  assumes "length tris mod 3 \<noteq> 0"
  shows "((\<forall>k<length tris. tris ! k < numPoints points) \<longrightarrow>
            (\<exists>res. computeMassProperties r points tris = Inr res))
       \<and> (computeMassProperties r points tris = Inl e \<longrightarrow>
            (\<exists>k<3 * (length tris div 3). \<not> tris ! k < numPoints points))"
proof (intro conjI impI)
  assume "\<forall>k<length tris. tris ! k < numPoints points"
  from all_valid_indicesOK [OF this]
  show "\<exists>res. computeMassProperties r points tris = Inr res"
    by (simp add: computeMassProperties_explicit)
next
  assume "computeMassProperties r points tris = Inl e"
  from computeMassProperties_fails [OF this] failure_index
  show "\<exists>k<3 * (length tris div 3). \<not> tris ! k < numPoints points"
    by blast
qed

theorem bad_length_not_checked_witness:
  "length (cubeTriangles @ [0]) mod 3 \<noteq> 0
   \<and> list_all (\<lambda>x. x < numPoints cubePoints) (cubeTriangles @ [0])
   \<and> (\<exists>res. computeMassProperties round32 cubePoints (cubeTriangles @ [0]) = Inr res)
   \<and> length [0, 1, 9, 0::nat] mod 3 \<noteq> 0
   \<and> computeMassProperties round32 cubePoints [0, 1, 9, 0] = Inl AssertionFailed
   \<and> (\<exists>k<3 * (length [0, 1, 9, 0::nat] div 3). \<not> [0, 1, 9, 0] ! k < numPoints cubePoints)"
proof -
  have l: "length (cubeTriangles @ [0]) mod 3 \<noteq> 0"
    by (simp add: cubeTriangles_def)
  have v: "\<forall>k<length (cubeTriangles @ [0]). (cubeTriangles @ [0]) ! k < numPoints cubePoints"
    unfolding all_less_upt
    by (simp add: cubeTriangles_def cubePoints_def numPoints_def uint32_def upt_rec)
  have l2: "length [0, 1, 9, 0::nat] mod 3 \<noteq> 0" by simp
  have n: "numTriangles [0, 1, 9, 0] = 1"
    by (simp add: numTriangles_def uint32_def)
  have "\<not> list_all (indicesOK cubePoints [0, 1, 9, 0]) [0 ..< numTriangles [0, 1, 9, 0]]"
    unfolding n by (simp add: indicesOK_def numPoints_def uint32_def cubePoints_def)
  then have f: "computeMassProperties round32 cubePoints [0, 1, 9, 0] = Inl AssertionFailed"
    by (simp add: computeMassProperties_explicit all_less_upt)
  have v': "list_all (\<lambda>x. x < numPoints cubePoints) (cubeTriangles @ [0])"
    by (simp add: cubeTriangles_def cubePoints_def numPoints_def uint32_def)
  from bad_length_not_checked [OF l, where points = cubePoints and r = round32]
    bad_length_not_checked [OF l2, where points = cubePoints and r = round32
      and e = AssertionFailed]
    l v v' l2 f
  show ?thesis by blast
qed



text \<open>
  C6. The inertia tensor is symmetric throughout, for every rounding of the operations:
  \<^verbatim>\<open>computeTetrahedronInertia\<close> always produces a symmetric matrix, both parallel-axis
  transforms map symmetric matrices to symmetric matrices, the accumulated \<^verbatim>\<open>m_inertia\<close>
  is symmetric after k passes of the loop for every k up to the number of triangles, and
  so is the inertia of the result.
\<close>

theorem inertia_always_symmetric:
  "symmetric (computeTetrahedronInertia r mass p0 p1 p2 p3 M0)
   \<and> (symmetric M \<longrightarrow> symmetric (applyParallelAxisTheorem r M shift mass))
   \<and> (symmetric M \<longrightarrow> symmetric (applyInverseParallelAxisTheorem r M shift mass))
   \<and> (k \<le> numTriangles tris \<longrightarrow> runLoop r points tris [0 ..< k] (initialState r) = Inr st
        \<longrightarrow> symmetric (m_inertia st))
   \<and> (computeMassProperties r points tris = Inr res \<longrightarrow> symmetric (inertia res))"
proof (intro conjI impI)
  show "symmetric (computeTetrahedronInertia r mass p0 p1 p2 p3 M0)"
    by (rule symmetric_tetraInertia)
  show "symmetric (applyParallelAxisTheorem r M shift mass)" if "symmetric M"
    by (rule symmetric_parallelAxis [OF that])
  show "symmetric (applyInverseParallelAxisTheorem r M shift mass)" if "symmetric M"
    by (rule symmetric_inverseParallelAxis [OF that])
  show "symmetric (m_inertia st)" if "runLoop r points tris [0 ..< k] (initialState r) = Inr st"
    by (rule runLoop_symmetric [OF that]) (simp add: initialState_def symmetric_mzero)
  show "symmetric (inertia res)" if "computeMassProperties r points tris = Inr res"
    by (rule computeMassProperties_symmetric [OF that])
qed

theorem inertia_always_symmetric_witness:
  "symmetric (Mat3 (Vec3 (Fin 1) (Fin 2) (Fin 3)) (Vec3 (Fin 2) (Fin 4) (Fin 5))
                   (Vec3 (Fin 3) (Fin 5) (Fin 6)))
   \<and> symmetric (applyParallelAxisTheorem round32
        (Mat3 (Vec3 (Fin 1) (Fin 2) (Fin 3)) (Vec3 (Fin 2) (Fin 4) (Fin 5))
              (Vec3 (Fin 3) (Fin 5) (Fin 6)))
        (Vec3 (Fin 1) (Fin (- 2)) (Fin 3)) (Fin 2))
   \<and> symmetric (applyInverseParallelAxisTheorem round32
        (Mat3 (Vec3 (Fin 1) (Fin 2) (Fin 3)) (Vec3 (Fin 2) (Fin 4) (Fin 5))
              (Vec3 (Fin 3) (Fin 5) (Fin 6)))
        (Vec3 (Fin 1) (Fin (- 2)) (Fin 3)) (Fin 2))
   \<and> 1 \<le> numTriangles [0, 1, 2]
   \<and> (\<exists>st. runLoop round32 cornerPoints [0, 1, 2] [0 ..< 1] (initialState round32) = Inr st
          \<and> symmetric (m_inertia st))
   \<and> (\<exists>res. computeMassProperties round32 cornerPoints [0, 1, 2] = Inr res
          \<and> symmetric (inertia res))"
proof -
  let ?M = "Mat3 (Vec3 (Fin 1) (Fin 2) (Fin 3)) (Vec3 (Fin 2) (Fin 4) (Fin 5))
                 (Vec3 (Fin 3) (Fin 5) (Fin 6))"
  have s: "symmetric ?M" by (simp add: symmetric_def)
  have n: "numTriangles [0, 1, 2] = 1"
    by (simp add: numTriangles_def uint32_def)
  have ok: "\<forall>i<numTriangles [0, 1, 2]. indicesOK cornerPoints [0, 1, 2] i"
    unfolding n using corner_indicesOK by simp
  have ok': "\<forall>i\<in>set [0 ..< 1]. indicesOK cornerPoints [0, 1, 2] i"
    using corner_indicesOK by simp
  have "runLoop round32 cornerPoints [0, 1, 2] [0 ..< 1] (initialState round32) =
      Inr (foldl (accumulate round32) (initialState round32)
             (map (triangleAt cornerPoints [0, 1, 2]) [0 ..< 1]))"
    unfolding runLoop_explicit using ok' by (rule if_P)
  then obtain st where
    l: "runLoop round32 cornerPoints [0, 1, 2] [0 ..< 1] (initialState round32) = Inr st"
    by blast
  have "computeMassProperties round32 cornerPoints [0, 1, 2] =
      Inr (meshResult round32 (meshTriangles cornerPoints [0, 1, 2]))"
    unfolding computeMassProperties_explicit using ok by (rule if_P)
  then obtain res where r: "computeMassProperties round32 cornerPoints [0, 1, 2] = Inr res"
    by blast
  have k: "1 \<le> numTriangles [0, 1, 2]" unfolding n by simp
  from inertia_always_symmetric
    [where M = ?M and shift = "Vec3 (Fin 1) (Fin (- 2)) (Fin 3)" and mass = "Fin 2" and k = 1
      and tris = "[0, 1, 2]" and points = cornerPoints and st = st and res = res and r = round32]
    s k l r
  show ?thesis by blast
qed








text \<open>
  C10. The result depends only on the first 3 * (n div 3) indices: the trailing one or
  two indices of a list whose length n is not a multiple of 3 are ignored, and the
  result is that of the truncated list. This holds for every rounding of the operations.
\<close>

theorem trailing_indices_ignored:
  "computeMassProperties r points triangleIndices =
   computeMassProperties r points (take (3 * (length triangleIndices div 3)) triangleIndices)"
  by (rule computeMassProperties_take)

end
